theory Spec2Isabelle
  imports Main "HOL-Library.AList" "HOL-Library.Word"
begin

unbundle bit_operations_syntax

section \<open>Values, errors and the live tree\<close>

text \<open>
  The development embeds \<^verbatim>\<open>src/enhanced_inputevents/mutation_diff.js\<close>.
  DOM nodes are objects compared by identity; they are modelled by natural numbers.
  Attribute and character-data values are \<^verbatim>\<open>string | null\<close>: \<open>None\<close> is \<^verbatim>\<open>null\<close>.
  A JavaScript \<^verbatim>\<open>Map\<close> iterates in insertion order, \<^verbatim>\<open>set\<close> on a present key keeps
  the key's place and \<^verbatim>\<open>delete\<close> removes it: association lists with
  \<open>map_of\<close>, \<open>AList.update\<close> and \<open>AList.delete\<close>.
\<close>

type_synonym node = nat
type_synonym jsval = "string option"

text \<open>
  Every exception of the source is a value. \<open>Diverges\<close> stands for a \<^verbatim>\<open>while (true)\<close>
  walk that never leaves a cycle of sibling links (the walks are given more fuel than any
  walk without a repeated record can use). \<open>RangeError\<close> is the end of such a walk when
  every round appends to an array: the array cannot grow for ever.
\<close>

datatype error =
    TypeError
  | ReferenceError
  | HierarchyRequestError
  | JsError string
  | RangeError
  | Diverges

definition ebind :: "error + 'a \<Rightarrow> ('a \<Rightarrow> error + 'b) \<Rightarrow> error + 'b" where
  "ebind m f = (case m of Inl e \<Rightarrow> Inl e | Inr x \<Rightarrow> f x)"

subsection \<open>The live tree\<close>

text \<open>
  The tree the embedder owns: a forest of rose trees (the roots are the nodes without a
  parent), the attributes of each node and the data of each character-data node.
  A node that occurs nowhere in the forest is a detached node without children.
  \<open>html\<close> lists the elements in the HTML namespace whose document is an HTML document: for
  these the attribute methods put the name they are given in ASCII lower case. \<open>cdata\<close> holds
  the character-data nodes; any other node has no \<^verbatim>\<open>data\<close> property until one is assigned,
  which makes it a property of the node's own (\<open>own_data\<close>).
\<close>

datatype dtree = DNode node "dtree list"

text \<open>
  An attribute has a namespace, a namespace prefix, a local name and a value; its qualified
  name is the local name, after the prefix and a colon if it has a prefix.
\<close>

record attr =
  a_namespace :: jsval
  a_prefix :: jsval
  a_local :: string
  a_value :: string

record dom =
  forest :: "dtree list"
  html :: "node list"
  attrs :: "(node \<times> attr list) list"
  cdata :: "(node \<times> string) list"
  own_data :: "(node \<times> jsval) list"

fun tnode :: "dtree \<Rightarrow> node" where
  "tnode (DNode n cs) = n"

fun tkids :: "dtree \<Rightarrow> dtree list" where
  "tkids (DNode n cs) = cs"

fun find_t :: "node \<Rightarrow> dtree \<Rightarrow> dtree option"
  and find_ts :: "node \<Rightarrow> dtree list \<Rightarrow> dtree option" where
  "find_t n (DNode m cs) = (if n = m then Some (DNode m cs) else find_ts n cs)"
| "find_ts n [] = None"
| "find_ts n (t # ts) = (case find_t n t of Some s \<Rightarrow> Some s | None \<Rightarrow> find_ts n ts)"

fun parent_t :: "node \<Rightarrow> dtree \<Rightarrow> node option"
  and parent_ts :: "node \<Rightarrow> dtree list \<Rightarrow> node option" where
  "parent_t n (DNode m cs) = (if n \<in> set (map tnode cs) then Some m else parent_ts n cs)"
| "parent_ts n [] = None"
| "parent_ts n (t # ts) = (case parent_t n t of Some p \<Rightarrow> Some p | None \<Rightarrow> parent_ts n ts)"

text \<open>\<^verbatim>\<open>node.parentNode\<close>, \<^verbatim>\<open>parent.childNodes\<close>, \<^verbatim>\<open>node.previousSibling\<close>, \<^verbatim>\<open>node.nextSibling\<close>.\<close>

definition parentNode :: "dom \<Rightarrow> node \<Rightarrow> node option" where
  "parentNode d n = parent_ts n (forest d)"

definition childNodes :: "dom \<Rightarrow> node \<Rightarrow> node list" where
  "childNodes d p = (case find_ts p (forest d) of None \<Rightarrow> [] | Some t \<Rightarrow> map tnode (tkids t))"

fun before_in :: "node \<Rightarrow> node list \<Rightarrow> node option" where
  "before_in n [] = None"
| "before_in n [x] = None"
| "before_in n (x # y # ys) = (if y = n then Some x else before_in n (y # ys))"

fun after_in :: "node \<Rightarrow> node list \<Rightarrow> node option" where
  "after_in n [] = None"
| "after_in n [x] = None"
| "after_in n (x # y # ys) = (if x = n then Some y else after_in n (y # ys))"

definition previousSibling :: "dom \<Rightarrow> node \<Rightarrow> node option" where
  "previousSibling d n =
     (case parentNode d n of None \<Rightarrow> None | Some p \<Rightarrow> before_in n (childNodes d p))"

definition nextSibling :: "dom \<Rightarrow> node \<Rightarrow> node option" where
  "nextSibling d n =
     (case parentNode d n of None \<Rightarrow> None | Some p \<Rightarrow> after_in n (childNodes d p))"

text \<open>\<^verbatim>\<open>a.contains(b)\<close>: \<open>b\<close> is \<open>a\<close> or a descendant of \<open>a\<close>.\<close>

definition dom_contains :: "dom \<Rightarrow> node \<Rightarrow> node \<Rightarrow> bool" where
  "dom_contains d a b =
     (a = b \<or> (case find_ts a (forest d) of None \<Rightarrow> False | Some t \<Rightarrow> find_t b t \<noteq> None))"

text \<open>
  \<^verbatim>\<open>node.remove()\<close>: the subtree of the node leaves its parent's child list and becomes a
  root of the forest. A node without a parent stays where it is.
\<close>

fun cut_t :: "node \<Rightarrow> dtree \<Rightarrow> dtree"
  and cut_ts :: "node \<Rightarrow> dtree list \<Rightarrow> dtree list" where
  "cut_t n (DNode m cs) = DNode m (cut_ts n cs)"
| "cut_ts n [] = []"
| "cut_ts n (t # ts) = (if tnode t = n then ts else cut_t n t # cut_ts n ts)"

definition dom_remove :: "node \<Rightarrow> dom \<Rightarrow> dom" where
  "dom_remove n d =
     (case parentNode d n of
        None \<Rightarrow> d
      | Some p \<Rightarrow>
          (case find_ts n (forest d) of
             None \<Rightarrow> d
           | Some s \<Rightarrow> d\<lparr>forest := map (cut_t n) (forest d) @ [s]\<rparr>))"

text \<open>
  Taking nodes out of the forest altogether (they are about to be inserted): the subtree of
  each, which is a single node if the forest does not hold it. The nodes are taken one after
  the other and collected in \<open>frag\<close>; a node that is inside a subtree taken before it, or was
  itself taken before, leaves its place there and goes to the end.
\<close>

definition take_node :: "node \<Rightarrow> dtree list \<Rightarrow> dtree \<times> dtree list" where
  "take_node n f =
     (case find_ts n f of
        None \<Rightarrow> (DNode n [], f)
      | Some s \<Rightarrow> (s, filter (\<lambda>t. tnode t \<noteq> n) (map (cut_t n) f)))"

fun take_nodes :: "node list \<Rightarrow> dtree list \<Rightarrow> dtree list \<Rightarrow> dtree list \<times> dtree list" where
  "take_nodes [] frag f = (frag, f)"
| "take_nodes (n # ns) frag f =
     (case find_ts n frag of
        Some s \<Rightarrow> take_nodes ns (filter (\<lambda>t. tnode t \<noteq> n) (map (cut_t n) frag) @ [s]) f
      | None \<Rightarrow> (let (s, f1) = take_node n f in take_nodes ns (frag @ [s]) f1))"

text \<open>Putting subtrees into the child list of \<open>p\<close>, before the child \<open>r\<close> or at the end.\<close>

fun splice :: "node option \<Rightarrow> dtree list \<Rightarrow> dtree list \<Rightarrow> dtree list" where
  "splice r new [] = new"
| "splice r new (c # cs) =
     (if r = Some (tnode c) then new @ c # cs else c # splice r new cs)"

fun graft_t :: "node \<Rightarrow> node option \<Rightarrow> dtree list \<Rightarrow> dtree \<Rightarrow> dtree"
  and graft_ts :: "node \<Rightarrow> node option \<Rightarrow> dtree list \<Rightarrow> dtree list \<Rightarrow> dtree list" where
  "graft_t p r new (DNode m cs) =
     (if m = p then DNode m (splice r new cs) else DNode m (graft_ts p r new cs))"
| "graft_ts p r new [] = []"
| "graft_ts p r new (t # ts) = graft_t p r new t # graft_ts p r new ts"

text \<open>
  The insertion all four of \<^verbatim>\<open>before\<close>, \<^verbatim>\<open>after\<close>, \<^verbatim>\<open>append\<close>, \<^verbatim>\<open>prepend\<close> end in:
  a node that is the parent or one of its ancestors cannot be inserted
  (\<^verbatim>\<open>HierarchyRequestError\<close>); otherwise the nodes leave their places and enter the child
  list of \<open>p\<close> before \<open>r\<close> (read after they left), or at its end.
\<close>

definition dom_insert :: "node \<Rightarrow> node list \<Rightarrow> (dom \<Rightarrow> node option) \<Rightarrow> dom \<Rightarrow> error + dom" where
  "dom_insert p ns ref d =
     (if \<exists>n \<in> set ns. dom_contains d n p then Inl HierarchyRequestError
      else
        let (new, f1) = take_nodes ns [] (forest d);
            d1 = d\<lparr>forest := f1\<rparr>;
            f2 = (if find_ts p f1 = None then f1 @ [DNode p []] else f1)
        in Inr (d\<lparr>forest := graft_ts p (ref d1) new f2\<rparr>))"

definition first_not_in :: "node list \<Rightarrow> node list \<Rightarrow> node option" where
  "first_not_in ns xs = (case filter (\<lambda>x. x \<notin> set ns) xs of [] \<Rightarrow> None | x # _ \<Rightarrow> Some x)"

text \<open>\<^verbatim>\<open>parent.append(...nodes)\<close> and \<^verbatim>\<open>parent.prepend(...nodes)\<close>.\<close>

definition dom_append :: "node \<Rightarrow> node list \<Rightarrow> dom \<Rightarrow> error + dom" where
  "dom_append p ns d = dom_insert p ns (\<lambda>_. None) d"

definition dom_prepend :: "node \<Rightarrow> node list \<Rightarrow> dom \<Rightarrow> error + dom" where
  "dom_prepend p ns d =
     dom_insert p ns (\<lambda>d1. case childNodes d1 p of [] \<Rightarrow> None | c # _ \<Rightarrow> Some c) d"

text \<open>
  \<^verbatim>\<open>ref.before(...nodes)\<close> and \<^verbatim>\<open>ref.after(...nodes)\<close>: nothing happens when \<open>ref\<close> has no
  parent. The place is fixed by the nearest sibling of \<open>ref\<close> that is not itself inserted.
\<close>

definition dom_before :: "node \<Rightarrow> node list \<Rightarrow> dom \<Rightarrow> error + dom" where
  "dom_before r ns d =
     (case parentNode d r of
        None \<Rightarrow> Inr d
      | Some p \<Rightarrow>
          (let viable = first_not_in ns (rev (takeWhile (\<lambda>x. x \<noteq> r) (childNodes d p)))
           in dom_insert p ns
                (\<lambda>d1. case viable of
                         None \<Rightarrow> (case childNodes d1 p of [] \<Rightarrow> None | c # _ \<Rightarrow> Some c)
                       | Some v \<Rightarrow> nextSibling d1 v) d))"

definition dom_after :: "node \<Rightarrow> node list \<Rightarrow> dom \<Rightarrow> error + dom" where
  "dom_after r ns d =
     (case parentNode d r of
        None \<Rightarrow> Inr d
      | Some p \<Rightarrow>
          (let viable = first_not_in ns (tl (dropWhile (\<lambda>x. x \<noteq> r) (childNodes d p)))
           in dom_insert p ns (\<lambda>_. viable) d))"

text \<open>
  \<^verbatim>\<open>getAttribute(qualifiedName)\<close>, \<^verbatim>\<open>setAttribute(qualifiedName, value)\<close> and
  \<^verbatim>\<open>removeAttribute(qualifiedName)\<close> work on the first attribute whose qualified name is the
  argument, put in ASCII lower case first if the node is an HTML element of an HTML document;
  \<^verbatim>\<open>setAttribute\<close> appends an attribute of that name without namespace and prefix when
  there is none. \<^verbatim>\<open>setAttributeNS(namespace, name, value)\<close> (for a name without prefix)
  works on the attribute with that namespace and local name, as they are written. The names
  handed over are taken to be valid attribute names (letters and colons are), so no call
  ends in \<^verbatim>\<open>InvalidCharacterError\<close>.
\<close>

definition ascii_lower :: "char \<Rightarrow> char" where
  "ascii_lower c =
     (case map_of (zip ''ABCDEFGHIJKLMNOPQRSTUVWXYZ'' ''abcdefghijklmnopqrstuvwxyz'') c of
        None \<Rightarrow> c
      | Some l \<Rightarrow> l)"

definition attr_name :: "dom \<Rightarrow> node \<Rightarrow> string \<Rightarrow> string" where
  "attr_name d n k = (if n \<in> set (html d) then map ascii_lower k else k)"

definition qualified_name :: "attr \<Rightarrow> string" where
  "qualified_name a = (case a_prefix a of None \<Rightarrow> a_local a | Some p \<Rightarrow> p @ '':'' @ a_local a)"

definition node_attrs :: "dom \<Rightarrow> node \<Rightarrow> attr list" where
  "node_attrs d n = (case map_of (attrs d) n of None \<Rightarrow> [] | Some as \<Rightarrow> as)"

fun set_first :: "(attr \<Rightarrow> bool) \<Rightarrow> string \<Rightarrow> attr \<Rightarrow> attr list \<Rightarrow> attr list" where
  "set_first P v new [] = [new]"
| "set_first P v new (a # as) = (if P a then a\<lparr>a_value := v\<rparr> # as else a # set_first P v new as)"

fun remove_first :: "(attr \<Rightarrow> bool) \<Rightarrow> attr list \<Rightarrow> attr list" where
  "remove_first P [] = []"
| "remove_first P (a # as) = (if P a then as else a # remove_first P as)"

definition getAttribute :: "dom \<Rightarrow> node \<Rightarrow> string \<Rightarrow> jsval" where
  "getAttribute d n k =
     (case find (\<lambda>a. qualified_name a = attr_name d n k) (node_attrs d n) of
        None \<Rightarrow> None
      | Some a \<Rightarrow> Some (a_value a))"

definition setAttribute :: "node \<Rightarrow> string \<Rightarrow> string \<Rightarrow> dom \<Rightarrow> dom" where
  "setAttribute n k v d =
     d\<lparr>attrs := AList.update n
          (set_first (\<lambda>a. qualified_name a = attr_name d n k) v
             \<lparr>a_namespace = None, a_prefix = None, a_local = attr_name d n k, a_value = v\<rparr>
             (node_attrs d n))
          (attrs d)\<rparr>"

definition removeAttribute :: "node \<Rightarrow> string \<Rightarrow> dom \<Rightarrow> dom" where
  "removeAttribute n k d =
     d\<lparr>attrs := AList.update n
          (remove_first (\<lambda>a. qualified_name a = attr_name d n k) (node_attrs d n)) (attrs d)\<rparr>"

definition setAttributeNS :: "node \<Rightarrow> jsval \<Rightarrow> string \<Rightarrow> string \<Rightarrow> dom \<Rightarrow> dom" where
  "setAttributeNS n ns k v d =
     d\<lparr>attrs := AList.update n
          (set_first (\<lambda>a. a_namespace a = ns \<and> a_local a = k) v
             \<lparr>a_namespace = ns, a_prefix = None, a_local = k, a_value = v\<rparr> (node_attrs d n))
          (attrs d)\<rparr>"

text \<open>
  Reading \<^verbatim>\<open>node.data\<close>: the data of a character-data node, a string; for any other node
  the property of its own if one was assigned, and \<^verbatim>\<open>undefined\<close> (\<open>None\<close>) otherwise.
\<close>

definition get_data :: "dom \<Rightarrow> node \<Rightarrow> jsval option" where
  "get_data d n =
     (case map_of (cdata d) n of
        Some s \<Rightarrow> Some (Some s)
      | None \<Rightarrow> map_of (own_data d) n)"

text \<open>
  Assigning to \<^verbatim>\<open>node.data\<close>: a character-data node stores the string, the empty string for
  \<^verbatim>\<open>null\<close>; any other node gets a property of its own holding the value as it is.
\<close>

definition set_data :: "node \<Rightarrow> jsval \<Rightarrow> dom \<Rightarrow> dom" where
  "set_data n v d =
     (if map_of (cdata d) n \<noteq> None
      then d\<lparr>cdata := AList.update n (case v of None \<Rightarrow> [] | Some s \<Rightarrow> s) (cdata d)\<rparr>
      else d\<lparr>own_data := AList.update n v (own_data d)\<rparr>)"

section \<open>PropertyCache\<close>

text \<open>
  An entry \<^verbatim>\<open>{value, dirty}\<close>: the original value and whether the current value differs.
  In \<^verbatim>\<open>native\<close> the key \<^verbatim>\<open>null\<close> (\<open>None\<close>) is the character data, any other key an
  attribute name; \<^verbatim>\<open>custom\<close> holds the user's keys.
\<close>

type_synonym pkey = "string option"

record prop_entry =
  e_value :: jsval
  e_dirty :: bool

record property_cache =
  native :: "(pkey \<times> prop_entry) list"
  custom :: "(pkey \<times> prop_entry) list"
  clean_count :: int
  dirty_count :: int

datatype pmode = Native | Custom

definition new_PropertyCache :: property_cache where
  "new_PropertyCache = \<lparr>native = [], custom = [], clean_count = 0, dirty_count = 0\<rparr>"

definition pc_get :: "pmode \<Rightarrow> property_cache \<Rightarrow> (pkey \<times> prop_entry) list" where
  "pc_get mode c = (case mode of Native \<Rightarrow> native c | Custom \<Rightarrow> custom c)"

definition pc_put :: "pmode \<Rightarrow> (pkey \<times> prop_entry) list \<Rightarrow> property_cache \<Rightarrow> property_cache" where
  "pc_put mode m c = (case mode of Native \<Rightarrow> c\<lparr>native := m\<rparr> | Custom \<Rightarrow> c\<lparr>custom := m\<rparr>)"

text \<open>The getters \<^verbatim>\<open>size\<close> and \<^verbatim>\<open>dirty\<close>.\<close>

definition pc_size :: "property_cache \<Rightarrow> int" where
  "pc_size c = int (length (native c)) + int (length (custom c))"

definition pc_dirty :: "property_cache \<Rightarrow> int" where
  "pc_dirty c = dirty_count c"

text \<open>
  \<^verbatim>\<open>mark(mode, key, value, old_value)\<close>. The current value may be \<^verbatim>\<open>undefined\<close> (\<open>None\<close>;
  \<^verbatim>\<open>node.data\<close> of a node without that property), which is different from every old value.
\<close>

definition mark :: "pmode \<Rightarrow> pkey \<Rightarrow> jsval option \<Rightarrow> jsval \<Rightarrow> property_cache \<Rightarrow> property_cache" where
  "mark mode key val old_value c =
     (let m = pc_get mode c in
      case map_of m key of
        None \<Rightarrow>
          (let dirty = (val \<noteq> Some old_value);
               c1 = pc_put mode (AList.update key \<lparr>e_value = old_value, e_dirty = dirty\<rparr> m) c
           in if dirty then c1\<lparr>dirty_count := dirty_count c1 + 1\<rparr>
              else c1\<lparr>clean_count := clean_count c1 + 1\<rparr>)
      | Some props \<Rightarrow>
          (let dirty = (val \<noteq> Some (e_value props)) in
           if dirty \<noteq> e_dirty props then
             (let c1 = pc_put mode (AList.update key (props\<lparr>e_dirty := dirty\<rparr>) m) c;
                  change = (if dirty then 1 else - 1)
              in c1\<lparr>dirty_count := dirty_count c1 + change,
                    clean_count := clean_count c1 - change\<rparr>)
           else c))"

text \<open>
  \<^verbatim>\<open>revert(node, custom_revert)\<close>. The first loop restores the dirty native entries.
  The second loop is written \<^verbatim>\<open>for (const [key,o] of props.custom)\<close>; no binding named
  \<^verbatim>\<open>props\<close> is in scope of the method (not a parameter, not a local, not a binding of the
  module), so reading it throws \<^verbatim>\<open>ReferenceError\<close>. The callback acts on a state of the
  embedder's, \<open>'u\<close>.
\<close>

definition revert_native :: "node \<Rightarrow> pkey \<times> prop_entry \<Rightarrow> dom \<Rightarrow> dom" where
  "revert_native n kv d =
     (let (attr, o') = kv in
      if \<not> e_dirty o' then d
      else (case attr of
              None \<Rightarrow> set_data n (e_value o') d
            | Some a \<Rightarrow>
                (case e_value o' of
                   None \<Rightarrow> removeAttribute n a d
                 | Some v \<Rightarrow> setAttribute n a v d)))"

definition unbound_props :: "error + property_cache" where
  "unbound_props = Inl ReferenceError"

definition revert_custom ::
  "(node \<Rightarrow> pkey \<Rightarrow> jsval \<Rightarrow> 'u \<Rightarrow> 'u) \<Rightarrow> node \<Rightarrow> pkey \<times> prop_entry \<Rightarrow> 'u \<Rightarrow> 'u" where
  "revert_custom custom_revert n kv u =
     (let (key, o') = kv in if e_dirty o' then custom_revert n key (e_value o') u else u)"

definition pc_revert ::
  "property_cache \<Rightarrow> node \<Rightarrow> (node \<Rightarrow> pkey \<Rightarrow> jsval \<Rightarrow> 'u \<Rightarrow> 'u) option \<Rightarrow> dom \<times> 'u
     \<Rightarrow> error + dom \<times> 'u" where
  "pc_revert c n custom_revert w =
     (let (d, u) = w;
          d1 = fold (revert_native n) (native c) d
      in case custom_revert of
           None \<Rightarrow> Inr (d1, u)
         | Some f \<Rightarrow>
             ebind unbound_props
               (\<lambda>props. Inr (d1, fold (revert_custom f n) (custom props) u)))"

text \<open>
  \<^verbatim>\<open>synchronize()\<close>. Both loops are written
  \<^verbatim>\<open>for (const [attr,o] of this.native.values())\<close>: they iterate the entries' values, the
  objects \<^verbatim>\<open>{value, dirty}\<close>, and destructure each as an array. Such an object is not
  iterable, so the destructuring throws \<^verbatim>\<open>TypeError\<close> at the first value.
\<close>

definition destructure_entry :: "prop_entry \<Rightarrow> error + pkey \<times> prop_entry" where
  "destructure_entry v = Inl TypeError"

fun sync_loop :: "prop_entry list \<Rightarrow> (pkey \<times> prop_entry) list \<Rightarrow> error + (pkey \<times> prop_entry) list" where
  "sync_loop [] m = Inr m"
| "sync_loop (v # vs) m =
     ebind (destructure_entry v)
       (\<lambda>(attr, o'). sync_loop vs (if \<not> e_dirty o' then AList.delete attr m else m))"

definition pc_synchronize :: "property_cache \<Rightarrow> error + int \<times> property_cache" where
  "pc_synchronize c =
     ebind (sync_loop (map snd (native c)) (native c)) (\<lambda>nat'.
     ebind (sync_loop (map snd (custom c)) (custom c)) (\<lambda>cus'.
       let c1 = c\<lparr>native := nat', custom := cus'\<rparr>;
           c2 = c1\<lparr>clean_count := 0, dirty_count := pc_size c1\<rparr>
       in Inr (dirty_count c2, c2)))"

section \<open>TreeMutations: records, promises and the sibling indexes\<close>

text \<open>
  \<^verbatim>\<open>MutatedNode\<close> and \<^verbatim>\<open>SiblingPromise\<close> objects are shared by reference (the floating map,
  the four index maps, promise fields and local variables all point at them), so they live in
  two stores addressed by numbers; \<^verbatim>\<open>new\<close> takes the next free address.
  A sibling slot of a position \<^verbatim>\<open>{parent, prev, next}\<close> holds \<^verbatim>\<open>undefined\<close>, \<^verbatim>\<open>null\<close>,
  a node or a promise. A position object is only ever reached through the record that owns
  it, so it is stored by value in the record.
\<close>

type_synonym mn_ref = nat
type_synonym sp_ref = nat

datatype dir = Prev | Next
datatype mode = Original | Mutated

datatype sibling = Undefined | Null | Node node | Promise sp_ref

record position =
  p_parent :: "node option"
  p_prev :: sibling
  p_next :: sibling

record mutated_node =
  mn_node :: node
  original :: "position option"
  mutated :: "position option"

record sibling_promise =
  sp_mn :: mn_ref
  sp_dir :: dir
  sp_ptr :: "mn_ref option"

record sibling_index =
  idx_prev :: "(node \<times> mn_ref) list"
  idx_next :: "(node \<times> mn_ref) list"

record tree_mutations =
  floating :: "(node \<times> mn_ref) list"
  original_index :: sibling_index
  mutated_index :: sibling_index
  mn_heap :: "(mn_ref \<times> mutated_node) list"
  sp_heap :: "(sp_ref \<times> sibling_promise) list"

definition new_SiblingIndex :: sibling_index where
  "new_SiblingIndex = \<lparr>idx_prev = [], idx_next = []\<rparr>"

definition new_TreeMutations :: tree_mutations where
  "new_TreeMutations =
     \<lparr>floating = [], original_index = new_SiblingIndex, mutated_index = new_SiblingIndex,
      mn_heap = [], sp_heap = []\<rparr>"

definition new_MutatedNode :: "node \<Rightarrow> mutated_node" where
  "new_MutatedNode n = \<lparr>mn_node = n, original = None, mutated = None\<rparr>"

text \<open>Reading and writing the stores. Every address in use was allocated, so the default is never read.\<close>

definition mn_at :: "tree_mutations \<Rightarrow> mn_ref \<Rightarrow> mutated_node" where
  "mn_at t a = (case map_of (mn_heap t) a of Some m \<Rightarrow> m | None \<Rightarrow> new_MutatedNode 0)"

definition mn_put :: "mn_ref \<Rightarrow> mutated_node \<Rightarrow> tree_mutations \<Rightarrow> tree_mutations" where
  "mn_put a m t = t\<lparr>mn_heap := AList.update a m (mn_heap t)\<rparr>"

definition mn_alloc :: "mutated_node \<Rightarrow> tree_mutations \<Rightarrow> mn_ref \<times> tree_mutations" where
  "mn_alloc m t = (length (mn_heap t), t\<lparr>mn_heap := mn_heap t @ [(length (mn_heap t), m)]\<rparr>)"

definition sp_at :: "tree_mutations \<Rightarrow> sp_ref \<Rightarrow> sibling_promise" where
  "sp_at t p =
     (case map_of (sp_heap t) p of Some q \<Rightarrow> q
      | None \<Rightarrow> \<lparr>sp_mn = 0, sp_dir = Prev, sp_ptr = None\<rparr>)"

definition sp_put :: "sp_ref \<Rightarrow> sibling_promise \<Rightarrow> tree_mutations \<Rightarrow> tree_mutations" where
  "sp_put p q t = t\<lparr>sp_heap := AList.update p q (sp_heap t)\<rparr>"

text \<open>\<^verbatim>\<open>new SiblingPromise(tree, mn, dir)\<close>; \<^verbatim>\<open>ptr\<close> starts undefined.\<close>

definition new_SiblingPromise :: "mn_ref \<Rightarrow> dir \<Rightarrow> tree_mutations \<Rightarrow> sp_ref \<times> tree_mutations" where
  "new_SiblingPromise a dr t =
     (length (sp_heap t),
      t\<lparr>sp_heap := sp_heap t @ [(length (sp_heap t), \<lparr>sp_mn = a, sp_dir = dr, sp_ptr = None\<rparr>)]\<rparr>)"

text \<open>\<^verbatim>\<open>TreeMutations.get\<close> and \<^verbatim>\<open>has\<close>.\<close>

definition tm_get :: "tree_mutations \<Rightarrow> node \<Rightarrow> mn_ref option" where
  "tm_get t n = map_of (floating t) n"


text \<open>Field access by a computed name: \<^verbatim>\<open>op[dir]\<close>, \<^verbatim>\<open>mn[mode]\<close>, \<^verbatim>\<open>this[mode]\<close>, \<^verbatim>\<open>this[side]\<close>.\<close>

definition get_side :: "dir \<Rightarrow> position \<Rightarrow> sibling" where
  "get_side dr p = (case dr of Prev \<Rightarrow> p_prev p | Next \<Rightarrow> p_next p)"

definition set_side :: "dir \<Rightarrow> sibling \<Rightarrow> position \<Rightarrow> position" where
  "set_side dr v p = (case dr of Prev \<Rightarrow> p\<lparr>p_prev := v\<rparr> | Next \<Rightarrow> p\<lparr>p_next := v\<rparr>)"

definition get_pos :: "mode \<Rightarrow> mutated_node \<Rightarrow> position option" where
  "get_pos md m = (case md of Original \<Rightarrow> original m | Mutated \<Rightarrow> mutated m)"

definition set_pos :: "mode \<Rightarrow> position option \<Rightarrow> mutated_node \<Rightarrow> mutated_node" where
  "set_pos md v m = (case md of Original \<Rightarrow> m\<lparr>original := v\<rparr> | Mutated \<Rightarrow> m\<lparr>mutated := v\<rparr>)"

definition get_index :: "mode \<Rightarrow> tree_mutations \<Rightarrow> sibling_index" where
  "get_index md t = (case md of Original \<Rightarrow> original_index t | Mutated \<Rightarrow> mutated_index t)"

definition set_index :: "mode \<Rightarrow> sibling_index \<Rightarrow> tree_mutations \<Rightarrow> tree_mutations" where
  "set_index md v t =
     (case md of Original \<Rightarrow> t\<lparr>original_index := v\<rparr> | Mutated \<Rightarrow> t\<lparr>mutated_index := v\<rparr>)"

definition idx_side :: "dir \<Rightarrow> sibling_index \<Rightarrow> (node \<times> mn_ref) list" where
  "idx_side dr i = (case dr of Prev \<Rightarrow> idx_prev i | Next \<Rightarrow> idx_next i)"

definition idx_set_side :: "dir \<Rightarrow> (node \<times> mn_ref) list \<Rightarrow> sibling_index \<Rightarrow> sibling_index" where
  "idx_set_side dr v i = (case dr of Prev \<Rightarrow> i\<lparr>idx_prev := v\<rparr> | Next \<Rightarrow> i\<lparr>idx_next := v\<rparr>)"

definition idx_lookup :: "mode \<Rightarrow> dir \<Rightarrow> tree_mutations \<Rightarrow> node \<Rightarrow> mn_ref option" where
  "idx_lookup md dr t n = map_of (idx_side dr (get_index md t)) n"

definition idx_delete :: "mode \<Rightarrow> dir \<Rightarrow> node \<Rightarrow> tree_mutations \<Rightarrow> tree_mutations" where
  "idx_delete md dr n t =
     set_index md (idx_set_side dr (AList.delete n (idx_side dr (get_index md t))) (get_index md t)) t"

definition idx_put :: "mode \<Rightarrow> dir \<Rightarrow> node \<Rightarrow> mn_ref \<Rightarrow> tree_mutations \<Rightarrow> tree_mutations" where
  "idx_put md dr n a t =
     set_index md (idx_set_side dr (AList.update n a (idx_side dr (get_index md t))) (get_index md t)) t"

text \<open>
  \<^verbatim>\<open>SiblingIndex.remove\<close>, \<^verbatim>\<open>add\<close> and \<^verbatim>\<open>update\<close>, with the index's \<^verbatim>\<open>mode\<close> as an
  argument. \<^verbatim>\<open>#index(sibling)\<close> holds of nodes only.
\<close>

definition si_remove :: "mode \<Rightarrow> mn_ref \<Rightarrow> tree_mutations \<Rightarrow> tree_mutations" where
  "si_remove md a t =
     (case get_pos md (mn_at t a) of
        None \<Rightarrow> t
      | Some op \<Rightarrow>
          (let t1 = (case p_prev op of Node n \<Rightarrow> idx_delete md Prev n t | _ \<Rightarrow> t)
           in (case p_next op of Node n \<Rightarrow> idx_delete md Next n t1 | _ \<Rightarrow> t1)))"

definition si_add :: "mode \<Rightarrow> mn_ref \<Rightarrow> tree_mutations \<Rightarrow> tree_mutations" where
  "si_add md a t =
     (case get_pos md (mn_at t a) of
        None \<Rightarrow> t
      | Some op \<Rightarrow>
          (let t1 = (case p_prev op of Node n \<Rightarrow> idx_put md Prev n a t | _ \<Rightarrow> t)
           in (case p_next op of Node n \<Rightarrow> idx_put md Next n a t1 | _ \<Rightarrow> t1)))"

definition si_update ::
  "mode \<Rightarrow> mn_ref \<Rightarrow> sibling \<Rightarrow> dir \<Rightarrow> node option \<Rightarrow> tree_mutations \<Rightarrow> tree_mutations" where
  "si_update md a sib side parent t =
     (let op = (case get_pos md (mn_at t a) of
                  None \<Rightarrow> \<lparr>p_parent = parent, p_prev = Undefined, p_next = Undefined\<rparr>
                | Some op \<Rightarrow> op);
          t0 = mn_put a (set_pos md (Some op) (mn_at t a)) t;
          old = get_side side op
      in if old = sib then t0
         else
           (let t1 = mn_put a (set_pos md (Some (set_side side sib op)) (mn_at t0 a)) t0;
                t2 = (case old of Node n \<Rightarrow> idx_delete md side n t1 | _ \<Rightarrow> t1)
            in (case sib of Node n \<Rightarrow> idx_put md side n a t2 | _ \<Rightarrow> t2)))"

definition si_clear :: "mode \<Rightarrow> tree_mutations \<Rightarrow> tree_mutations" where
  "si_clear md t = set_index md new_SiblingIndex t"

text \<open>\<^verbatim>\<open>TreeMutations.clear\<close>: the three maps are emptied; the objects stay in the stores.\<close>

definition tm_clear :: "tree_mutations \<Rightarrow> tree_mutations" where
  "tm_clear t = si_clear Mutated (si_clear Original (t\<lparr>floating := []\<rparr>))"

subsection \<open>SiblingPromise\<close>

text \<open>The getter \<^verbatim>\<open>origin\<close>, \<^verbatim>\<open>resolve(node)\<close> and \<^verbatim>\<open>discard()\<close>.\<close>

definition sp_origin :: "tree_mutations \<Rightarrow> sp_ref \<Rightarrow> node" where
  "sp_origin t p = mn_node (mn_at t (sp_mn (sp_at t p)))"

definition sp_resolve :: "sp_ref \<Rightarrow> sibling \<Rightarrow> tree_mutations \<Rightarrow> tree_mutations" where
  "sp_resolve p nd t = si_update Original (sp_mn (sp_at t p)) nd (sp_dir (sp_at t p)) None t"

definition sp_discard :: "sp_ref \<Rightarrow> tree_mutations \<Rightarrow> error + tree_mutations" where
  "sp_discard p t =
     (case sp_ptr (sp_at t p) of
        None \<Rightarrow> Inr t
      | Some a \<Rightarrow>
          (case mutated (mn_at t a) of
             None \<Rightarrow> Inl TypeError
           | Some m \<Rightarrow>
               Inr (mn_put a ((mn_at t a)\<lparr>mutated := Some (set_side (sp_dir (sp_at t p)) Undefined m)\<rparr>) t)))"

text \<open>
  A walk over sibling links visits one record per step. A walk that does not change the
  floating map and visits a record twice never ends; one that removes a record from the map
  at least every \<open>length (floating t) + 1\<close> steps ends within the square. \<open>walk_fuel\<close> is
  above both bounds, so running out of it is non-termination of the source.
\<close>

definition walk_fuel :: "tree_mutations \<Rightarrow> nat" where
  "walk_fuel t = (length (floating t) + 2) * (length (floating t) + 2)"

text \<open>
  What a caller may hand over as the start of a search: a \<^verbatim>\<open>MutatedNode\<close>, a node,
  \<^verbatim>\<open>null\<close> or \<^verbatim>\<open>undefined\<close>.
\<close>

datatype hint = HUndefined | HNull | HNode node | HMn mn_ref

text \<open>
  \<^verbatim>\<open>resume(node)\<close>. In the loop, \<open>nd\<close> is the source's variable \<^verbatim>\<open>node\<close> and \<open>smn\<close> its
  \<^verbatim>\<open>smn\<close>. A slot that holds another promise is neither \<^verbatim>\<open>undefined\<close> nor \<^verbatim>\<open>null\<close>;
  \<^verbatim>\<open>floating.get\<close> of it is \<^verbatim>\<open>undefined\<close>, so the next round resolves to that promise.
\<close>

fun resume_loop ::
  "nat \<Rightarrow> sp_ref \<Rightarrow> sibling \<Rightarrow> mn_ref option \<Rightarrow> tree_mutations \<Rightarrow> error + bool \<times> tree_mutations" where
  "resume_loop 0 p nd smn t = Inl Diverges"
| "resume_loop (Suc k) p nd smn t =
     (case smn of
        None \<Rightarrow> Inr (True, sp_resolve p nd t)
      | Some a \<Rightarrow>
          ebind
            (case mutated (mn_at t a) of
               Some m \<Rightarrow> Inr (m, t)
             | None \<Rightarrow>
                 (case original (mn_at t (sp_mn (sp_at t p))) of
                    None \<Rightarrow> Inl TypeError
                  | Some og \<Rightarrow>
                      (let m = \<lparr>p_parent = p_parent og, p_prev = Undefined, p_next = Undefined\<rparr>
                       in Inr (m, mn_put a ((mn_at t a)\<lparr>mutated := Some m\<rparr>) t))))
            (\<lambda>(m, t1).
               case get_side (sp_dir (sp_at t1 p)) m of
                 Undefined \<Rightarrow>
                   Inr (False,
                        sp_put p ((sp_at t1 p)\<lparr>sp_ptr := Some a\<rparr>)
                          (mn_put a ((mn_at t1 a)\<lparr>mutated :=
                              Some (set_side (sp_dir (sp_at t1 p)) (Promise p) m)\<rparr>) t1))
               | Null \<Rightarrow> Inr (True, sp_resolve p Null t1)
               | Node n \<Rightarrow> resume_loop k p (Node n) (tm_get t1 n) t1
               | Promise q \<Rightarrow> resume_loop k p (Promise q) None t1))"

definition sp_resume :: "sp_ref \<Rightarrow> hint \<Rightarrow> tree_mutations \<Rightarrow> error + bool \<times> tree_mutations" where
  "sp_resume p h t =
     (case h of
        HNull \<Rightarrow> Inr (True, sp_resolve p Null t)
      | HMn a \<Rightarrow> resume_loop (walk_fuel t) p Undefined (Some a) t
      | HNode n \<Rightarrow> resume_loop (walk_fuel t) p (Node n) (tm_get t n) t
      | HUndefined \<Rightarrow> resume_loop (walk_fuel t) p Undefined None t)"

section \<open>TreeMutations.mutation\<close>

text \<open>
  The local variables of \<^verbatim>\<open>mutation\<close> that its closures read and write, together with the
  tree: \<^verbatim>\<open>siblings_known\<close>, \<^verbatim>\<open>revert_possible\<close>, the map \<^verbatim>\<open>resolved\<close> (record to flags),
  \<^verbatim>\<open>last_fixed\<close>, \<^verbatim>\<open>last_promise\<close>, and the arrays \<^verbatim>\<open>fixed\<close> and \<^verbatim>\<open>candidates\<close>.
\<close>

record ingest =
  i_tree :: tree_mutations
  siblings_known :: bool
  revert_possible :: bool
  resolved :: "(mn_ref \<times> nat) list"
  last_fixed :: sibling
  last_promise :: "sp_ref option"
  fixed :: "mn_ref list"
  candidates :: "mn_ref list"

definition new_ingest :: "tree_mutations \<Rightarrow> ingest" where
  "new_ingest t =
     \<lparr>i_tree = t, siblings_known = False, revert_possible = False, resolved = [],
      last_fixed = Undefined, last_promise = None, fixed = [], candidates = []\<rparr>"

definition of_node :: "node option \<Rightarrow> sibling" where
  "of_node n = (case n of None \<Rightarrow> Null | Some x \<Rightarrow> Node x)"

definition hint_of :: "mn_ref option \<Rightarrow> node option \<Rightarrow> hint" where
  "hint_of mn n =
     (case mn of Some a \<Rightarrow> HMn a
      | None \<Rightarrow> (case n of None \<Rightarrow> HNull | Some x \<Rightarrow> HNode x))"

definition resolved_set :: "mn_ref \<Rightarrow> ingest \<Rightarrow> ingest" where
  "resolved_set a s = s\<lparr>resolved := AList.update a 0 (resolved s)\<rparr>"

text \<open>
  \<^verbatim>\<open>handle_promises(node, handle_prev, handle_next)\<close>, in three parts: the block under
  \<^verbatim>\<open>if (handle_prev)\<close>, the block under \<^verbatim>\<open>if (handle_next)\<close>, and the whole closure.
  \<open>prev_mn\<close> is the variable of \<^verbatim>\<open>mutation\<close> the closure reads. The calls
  \<^verbatim>\<open>resolve(x, resolved)\<close> pass a second argument that \<^verbatim>\<open>resolve\<close> does not take.
  None of the calls made while \<^verbatim>\<open>m.prev\<close> is read repeatedly writes a mutated slot before
  the last read, so \<^verbatim>\<open>m.prev\<close> is read once.
\<close>

definition hp_prev :: "mn_ref option \<Rightarrow> mn_ref \<Rightarrow> ingest \<Rightarrow> error + ingest" where
  "hp_prev prev_mn a s =
     (let t = i_tree s in
      case mutated (mn_at t a) of
        None \<Rightarrow> Inr s
      | Some m \<Rightarrow>
          (case p_prev m of
             Undefined \<Rightarrow> Inr (s\<lparr>siblings_known := True\<rparr>)
           | Promise q \<Rightarrow>
               (case last_promise s of
                  Some lp \<Rightarrow>
                    (let t1 = sp_resolve lp (Node (sp_origin t q)) t;
                         t2 = sp_resolve q (Node (sp_origin t1 lp)) t1
                     in Inr ((resolved_set (sp_mn (sp_at t2 q))
                               (resolved_set (sp_mn (sp_at t2 lp)) s))
                             \<lparr>i_tree := t2, last_promise := None\<rparr>))
                | None \<Rightarrow>
                    (if last_fixed s \<noteq> Undefined then
                       (let t1 = sp_resolve q (last_fixed s) t
                        in Inr ((resolved_set (sp_mn (sp_at t1 q)) s)\<lparr>i_tree := t1\<rparr>))
                     else
                       ebind (sp_resume q (case prev_mn of None \<Rightarrow> HUndefined | Some b \<Rightarrow> HMn b) t)
                         (\<lambda>(ok, t1).
                            Inr ((if ok then resolved_set (sp_mn (sp_at t1 q)) s else s)
                                 \<lparr>i_tree := t1\<rparr>))))
           | _ \<Rightarrow> Inr s))"

definition hp_next :: "mn_ref \<Rightarrow> ingest \<Rightarrow> ingest" where
  "hp_next a s =
     (case mutated (mn_at (i_tree s) a) of
        None \<Rightarrow> s
      | Some m \<Rightarrow>
          (case p_next m of
             Undefined \<Rightarrow> s\<lparr>siblings_known := True\<rparr>
           | Promise q \<Rightarrow> s\<lparr>last_promise := Some q\<rparr>
           | _ \<Rightarrow> s))"

definition handle_promises ::
  "mn_ref option \<Rightarrow> node option \<Rightarrow> bool \<Rightarrow> bool \<Rightarrow> ingest \<Rightarrow> error + mn_ref option \<times> ingest" where
  "handle_promises prev_mn nd handle_prev handle_next s =
     (case (case nd of None \<Rightarrow> None | Some n \<Rightarrow> tm_get (i_tree s) n) of
        Some a \<Rightarrow>
          ebind (if handle_prev then hp_prev prev_mn a s else Inr s)
            (\<lambda>s1.
               if handle_next then Inr (Some a, hp_next a s1)
               else
                 (case last_promise s1 of
                    None \<Rightarrow> Inr (Some a, s1)
                  | Some lp \<Rightarrow>
                      ebind (sp_resume lp (HMn a) (i_tree s1))
                        (\<lambda>(ok, t1).
                           Inr (Some a,
                                (if ok then resolved_set (sp_mn (sp_at t1 lp)) s1 else s1)
                                \<lparr>i_tree := t1\<rparr>))))
      | None \<Rightarrow>
          (let s1 = s\<lparr>last_fixed := of_node nd\<rparr> in
           case last_promise s1 of
             None \<Rightarrow> Inr (None, s1)
           | Some lp \<Rightarrow>
               (let t1 = sp_resolve lp (of_node nd) (i_tree s1)
                in Inr (None,
                        (resolved_set (sp_mn (sp_at t1 lp)) s1)
                        \<lparr>i_tree := t1, last_promise := None\<rparr>))))"

text \<open>The loop over \<^verbatim>\<open>removed\<close>.\<close>

fun remove_loop :: "node \<Rightarrow> mn_ref option \<Rightarrow> node list \<Rightarrow> ingest \<Rightarrow> error + ingest" where
  "remove_loop parent prev_mn [] s = Inr s"
| "remove_loop parent prev_mn (n # ns) s =
     ebind (handle_promises prev_mn (Some n) True True s)
       (\<lambda>(mn, s1).
          remove_loop parent prev_mn ns
            (case mn of
               Some a \<Rightarrow>
                 (let t1 = si_remove Mutated a (i_tree s1) in
                  case original (mn_at t1 a) of
                    None \<Rightarrow> s1\<lparr>i_tree := t1\<lparr>floating := AList.delete n (floating t1)\<rparr>\<rparr>
                  | Some og \<Rightarrow>
                      (let s2 = s1\<lparr>i_tree := mn_put a ((mn_at t1 a)\<lparr>mutated := None\<rparr>) t1\<rparr>
                       in if p_parent og = Some parent then s2\<lparr>revert_possible := True\<rparr> else s2))
             | None \<Rightarrow>
                 (let (a, t1) =
                        mn_alloc ((new_MutatedNode n)
                          \<lparr>original := Some \<lparr>p_parent = Some parent, p_prev = Undefined, p_next = Undefined\<rparr>\<rparr>)
                          (i_tree s1)
                  in s1\<lparr>i_tree := t1\<lparr>floating := AList.update n a (floating t1)\<rparr>,
                        fixed := fixed s1 @ [a], revert_possible := True\<rparr>)))"

text \<open>
  The block under \<^verbatim>\<open>if (fixed.length)\<close>. \<open>set_original\<close> is the plain assignment
  \<^verbatim>\<open>mn.original[dir] = value\<close>, which does not touch the index.
\<close>

definition set_original :: "mn_ref \<Rightarrow> dir \<Rightarrow> sibling \<Rightarrow> tree_mutations \<Rightarrow> error + tree_mutations" where
  "set_original a dr v t =
     (case original (mn_at t a) of
        None \<Rightarrow> Inl TypeError
      | Some og \<Rightarrow> Inr (mn_put a ((mn_at t a)\<lparr>original := Some (set_side dr v og)\<rparr>) t))"

definition original_promise_sibling ::
  "mn_ref \<Rightarrow> dir \<Rightarrow> dir \<Rightarrow> hint \<Rightarrow> tree_mutations \<Rightarrow> error + tree_mutations" where
  "original_promise_sibling fprev forward_dir backward_dir h t =
     (case idx_lookup Original backward_dir t (mn_node (mn_at t fprev)) of
        None \<Rightarrow>
          (let (p, t1) = new_SiblingPromise fprev forward_dir t in
           ebind (sp_resume p h t1)
             (\<lambda>(ok, t2). if ok then Inr t2 else set_original fprev forward_dir (Promise p) t2))
      | Some sb \<Rightarrow> set_original fprev forward_dir (Node (mn_node (mn_at t sb))) t)"

fun fixed_loop :: "mn_ref \<Rightarrow> mn_ref list \<Rightarrow> tree_mutations \<Rightarrow> error + mn_ref \<times> tree_mutations" where
  "fixed_loop fprev [] t = Inr (fprev, t)"
| "fixed_loop fprev (fnext # rest) t =
     ebind
       (case idx_lookup Original Prev t (mn_node (mn_at t fprev)) of
          Some sb \<Rightarrow>
            ebind (set_original fprev Next (Node (mn_node (mn_at t sb))) t)
              (\<lambda>t1. case idx_lookup Original Next t1 (mn_node (mn_at t1 fnext)) of
                       None \<Rightarrow> Inl TypeError
                     | Some sb2 \<Rightarrow> set_original fnext Prev (Node (mn_node (mn_at t1 sb2))) t1)
        | None \<Rightarrow>
            ebind (set_original fprev Next (Node (mn_node (mn_at t fnext))) t)
              (\<lambda>t1. set_original fnext Prev (Node (mn_node (mn_at t1 fprev))) t1))
       (\<lambda>t2. fixed_loop fnext rest (si_add Original fprev t2))"

definition fixed_block ::
  "mn_ref option \<Rightarrow> node option \<Rightarrow> mn_ref option \<Rightarrow> node option \<Rightarrow> mn_ref list \<Rightarrow> tree_mutations
     \<Rightarrow> error + tree_mutations" where
  "fixed_block prev_mn prev next_mn next fx t =
     (case fx of
        [] \<Rightarrow> Inr t
      | f0 # rest \<Rightarrow>
          ebind (original_promise_sibling f0 Prev Next (hint_of prev_mn prev) t) (\<lambda>t1.
          ebind (fixed_loop f0 rest t1) (\<lambda>(fprev, t2).
          ebind (original_promise_sibling fprev Next Prev (hint_of next_mn next) t2) (\<lambda>t3.
            Inr (si_add Original fprev t3)))))"

text \<open>
  The loop over \<^verbatim>\<open>added\<close>; \<open>pv\<close> is \<^verbatim>\<open>added[ai-1] || prev\<close> and the next sibling is
  \<^verbatim>\<open>added[ai+1] || next\<close>.
\<close>

fun added_loop :: "node \<Rightarrow> sibling \<Rightarrow> node list \<Rightarrow> sibling \<Rightarrow> ingest \<Rightarrow> error + ingest" where
  "added_loop parent pv [] nx s = Inr s"
| "added_loop parent pv (n # ns) nx s =
     ebind
       (case tm_get (i_tree s) n of
          None \<Rightarrow>
            (let (a, t1) = mn_alloc (new_MutatedNode n) (i_tree s)
             in Inr (a, s\<lparr>i_tree := t1\<lparr>floating := AList.update n a (floating t1)\<rparr>\<rparr>))
        | Some a \<Rightarrow>
            (case original (mn_at (i_tree s) a) of
               None \<Rightarrow> Inl TypeError
             | Some og \<Rightarrow>
                 Inr (a, if p_parent og = Some parent then s\<lparr>candidates := candidates s @ [a]\<rparr> else s)))
       (\<lambda>(a, s1).
          let t1 = i_tree s1;
              m = \<lparr>p_parent = Some parent, p_prev = pv,
                   p_next = (case ns of [] \<Rightarrow> nx | n2 # _ \<Rightarrow> Node n2)\<rparr>;
              t2 = si_add Mutated a (mn_put a ((mn_at t1 a)\<lparr>mutated := Some m\<rparr>) t1)
          in added_loop parent (Node n) ns nx (s1\<lparr>i_tree := t2\<rparr>))"

subsection \<open>The revert check\<close>

text \<open>
  \<^verbatim>\<open>#revert_check\<close> is only called by \<^verbatim>\<open>mutation\<close>, always with the closure
  \<^verbatim>\<open>mark_reverted\<close> as its callback; the callback's map \<^verbatim>\<open>resolved\<close> is threaded with the
  tree. In \<^verbatim>\<open>mark_reverted\<close> the flags are combined with \<^verbatim>\<open>&=\<close>.
\<close>

record rc_state =
  rc_tree :: tree_mutations
  rc_resolved :: "(mn_ref \<times> nat) list"

definition mark_reverted :: "mn_ref \<Rightarrow> bool \<Rightarrow> dir option \<Rightarrow> (mn_ref \<times> nat) list \<Rightarrow> (mn_ref \<times> nat) list" where
  "mark_reverted a reverted side res =
     (case map_of res a of
        None \<Rightarrow> res
      | Some flags \<Rightarrow>
          (if reverted then AList.delete a res
           else
             (let flags1 = flags AND (if side = Some Prev then 1 else 2)
              in if flags1 = 3 then AList.delete a res else AList.update a flags1 res)))"

definition orig_parent :: "tree_mutations \<Rightarrow> mn_ref \<Rightarrow> node option" where
  "orig_parent t a = (case original (mn_at t a) of None \<Rightarrow> None | Some og \<Rightarrow> p_parent og)"

datatype anchor = NoAnchor | AFixed sibling | AFloating mn_ref

text \<open>\<^verbatim>\<open>fixed_anchor(mn, exclusive, dir)\<close>: the loop, then the closure.\<close>

fun anchor_walk :: "nat \<Rightarrow> node \<Rightarrow> dir \<Rightarrow> mn_ref \<Rightarrow> tree_mutations \<Rightarrow> error + anchor" where
  "anchor_walk 0 parent dr a t = Inl Diverges"
| "anchor_walk (Suc k) parent dr a t =
     (case mutated (mn_at t a) of
        None \<Rightarrow> Inr NoAnchor
      | Some m \<Rightarrow>
          (case get_side dr m of
             Undefined \<Rightarrow> Inr NoAnchor
           | Promise q \<Rightarrow> Inr NoAnchor
           | Null \<Rightarrow> Inr (AFixed Null)
           | Node n \<Rightarrow>
               (case tm_get t n of
                  None \<Rightarrow> Inr (AFixed (Node n))
                | Some b \<Rightarrow>
                    if orig_parent t b = Some parent then Inr (AFloating b)
                    else anchor_walk k parent dr b t)))"

definition fixed_anchor ::
  "node \<Rightarrow> hint \<Rightarrow> mn_ref option \<Rightarrow> dir \<Rightarrow> tree_mutations \<Rightarrow> error + anchor" where
  "fixed_anchor parent h exclusive dr t =
     (case h of
        HMn a \<Rightarrow>
          if exclusive = Some a then Inr NoAnchor
          else if orig_parent t a = Some parent then Inr (AFloating a)
          else anchor_walk (walk_fuel t) parent dr a t
      | HNull \<Rightarrow> Inr (AFixed Null)
      | HNode n \<Rightarrow> Inr (AFixed (Node n))
      | HUndefined \<Rightarrow>
          (case exclusive of
             None \<Rightarrow> Inr NoAnchor
           | Some e \<Rightarrow> anchor_walk (walk_fuel t) parent dr e t))"

text \<open>
  \<^verbatim>\<open>propagate\<close>. Its closure \<^verbatim>\<open>mark_fixed\<close> works on the variables \<^verbatim>\<open>mn\<close> and
  \<^verbatim>\<open>fixed\<close> of \<^verbatim>\<open>propagate\<close>; here it takes the record and the caller continues with
  \<open>Node (mn_node ...)\<close> as the new \<^verbatim>\<open>fixed\<close>.
\<close>

definition mark_fixed :: "dir \<Rightarrow> mn_ref \<Rightarrow> rc_state \<Rightarrow> error + rc_state" where
  "mark_fixed forward_dir a s =
     (let t = rc_tree s;
          t1 = t\<lparr>floating := AList.delete (mn_node (mn_at t a)) (floating t)\<rparr>;
          t2 = si_remove Mutated a (si_remove Original a t1)
      in case original (mn_at t2 a) of
           None \<Rightarrow> Inl TypeError
         | Some og \<Rightarrow>
             ebind (case get_side forward_dir og of Promise fp \<Rightarrow> sp_discard fp t2 | _ \<Rightarrow> Inr t2)
               (\<lambda>t3. Inr (s\<lparr>rc_tree := t3, rc_resolved := mark_reverted a True None (rc_resolved s)\<rparr>)))"

definition nth_opt :: "'a list \<Rightarrow> int \<Rightarrow> 'a option" where
  "nth_opt xs i = (if 0 \<le> i \<and> i < int (length xs) then Some (xs ! nat i) else None)"

text \<open>
  The \<^verbatim>\<open>for (; idx != end_idx; idx += inc)\<close> loop; the first argument counts the rounds
  left, \<open>nat \<bar>end_idx - idx\<bar>\<close> at the start. The result is the index the loop stopped at (if
  it did), the variable \<^verbatim>\<open>fixed\<close>, the variable \<^verbatim>\<open>mn\<close> and the state.
\<close>

fun propagate_candidates ::
  "nat \<Rightarrow> mn_ref list \<Rightarrow> int \<Rightarrow> int \<Rightarrow> dir \<Rightarrow> dir \<Rightarrow> sibling \<Rightarrow> mn_ref option \<Rightarrow> rc_state
     \<Rightarrow> error + int option \<times> sibling \<times> mn_ref option \<times> rc_state" where
  "propagate_candidates 0 cands idx inc forward_dir backward_dir fx mn s = Inr (None, fx, mn, s)"
| "propagate_candidates (Suc k) cands idx inc forward_dir backward_dir fx mn s =
     (case nth_opt cands idx of
        None \<Rightarrow> Inl TypeError
      | Some a \<Rightarrow>
          (case original (mn_at (rc_tree s) a) of
             None \<Rightarrow> Inl TypeError
           | Some og \<Rightarrow>
               if get_side backward_dir og \<noteq> fx then
                 Inr (Some idx, fx, Some a,
                      s\<lparr>rc_resolved := mark_reverted a False (Some backward_dir) (rc_resolved s)\<rparr>)
               else
                 ebind (mark_fixed forward_dir a s)
                   (\<lambda>s1. propagate_candidates k cands (idx + inc) inc forward_dir backward_dir
                           (Node (mn_node (mn_at (rc_tree s) a))) (Some a) s1)))"

text \<open>
  The \<^verbatim>\<open>while (true)\<close> loop of \<^verbatim>\<open>propagate\<close> with its inner \<^verbatim>\<open>do ... while\<close>: each round
  reads the forward sibling of \<^verbatim>\<open>mn\<close>; a floating sibling from another parent is skipped
  (the inner loop goes on), one from this parent is tested against \<^verbatim>\<open>fixed\<close>.
\<close>

fun extend_walk ::
  "nat \<Rightarrow> node \<Rightarrow> dir \<Rightarrow> dir \<Rightarrow> sibling \<Rightarrow> mn_ref option \<Rightarrow> rc_state \<Rightarrow> error + rc_state" where
  "extend_walk 0 parent forward_dir backward_dir fx mn s = Inl Diverges"
| "extend_walk (Suc k) parent forward_dir backward_dir fx mn s =
     (case mn of
        None \<Rightarrow> Inl TypeError
      | Some a \<Rightarrow>
          (case mutated (mn_at (rc_tree s) a) of
             None \<Rightarrow> Inl TypeError
           | Some m \<Rightarrow>
               (case get_side forward_dir m of
                  Node n \<Rightarrow>
                    (case tm_get (rc_tree s) n of
                       None \<Rightarrow> Inr s
                     | Some b \<Rightarrow>
                         if orig_parent (rc_tree s) b \<noteq> Some parent then
                           extend_walk k parent forward_dir backward_dir fx (Some b) s
                         else
                           (case original (mn_at (rc_tree s) b) of
                              None \<Rightarrow> Inl TypeError
                            | Some og \<Rightarrow>
                                if get_side backward_dir og \<noteq> fx then
                                  Inr (s\<lparr>rc_resolved :=
                                         mark_reverted b False (Some backward_dir) (rc_resolved s)\<rparr>)
                                else
                                  ebind (mark_fixed forward_dir b s)
                                    (\<lambda>s1. extend_walk k parent forward_dir backward_dir
                                            (Node (mn_node (mn_at (rc_tree s) b))) (Some b) s1)))
                | _ \<Rightarrow> Inr s)))"

text \<open>The argument \<^verbatim>\<open>extend\<close>: \<^verbatim>\<open>false\<close>, \<^verbatim>\<open>true\<close>, a \<^verbatim>\<open>MutatedNode\<close>, or a node or \<^verbatim>\<open>null\<close>.\<close>

datatype extend = ExtFalse | ExtTrue | ExtMn mn_ref | ExtFixed

definition propagate ::
  "node \<Rightarrow> mn_ref list \<Rightarrow> sibling \<Rightarrow> int \<Rightarrow> int \<Rightarrow> dir \<Rightarrow> dir \<Rightarrow> extend \<Rightarrow> rc_state
     \<Rightarrow> error + int option \<times> rc_state" where
  "propagate parent cands fx0 idx end_idx forward_dir backward_dir ext s0 =
     ebind (propagate_candidates (nat \<bar>end_idx - idx\<bar>) cands idx (sgn (end_idx - idx))
              forward_dir backward_dir fx0 None s0)
       (\<lambda>(stopped, fx, mn, s).
          case stopped of
            Some i \<Rightarrow> Inr (Some i, s)
          | None \<Rightarrow>
              ebind
                (case ext of
                   ExtFalse \<Rightarrow> Inr s
                 | ExtFixed \<Rightarrow> Inr s
                 | ExtTrue \<Rightarrow>
                     extend_walk (walk_fuel (rc_tree s)) parent forward_dir backward_dir fx mn s
                 | ExtMn a \<Rightarrow>
                     if orig_parent (rc_tree s) a = Some parent then
                       (case original (mn_at (rc_tree s) a) of
                          None \<Rightarrow> Inl TypeError
                        | Some og \<Rightarrow>
                            if get_side backward_dir og \<noteq> fx then
                              Inr (s\<lparr>rc_resolved :=
                                     mark_reverted a False (Some backward_dir) (rc_resolved s)\<rparr>)
                            else
                              ebind (mark_fixed forward_dir a s)
                                (\<lambda>s1. extend_walk (walk_fuel (rc_tree s)) parent forward_dir backward_dir
                                        (Node (mn_node (mn_at (rc_tree s) a))) (Some a) s1))
                     else
                       extend_walk (walk_fuel (rc_tree s)) parent forward_dir backward_dir fx (Some a) s)
                (\<lambda>s1. Inr (None, s1)))"

definition extend_of :: "hint \<Rightarrow> extend" where
  "extend_of h =
     (case h of HUndefined \<Rightarrow> ExtTrue | HMn a \<Rightarrow> ExtMn a | HNull \<Rightarrow> ExtFixed | HNode n \<Rightarrow> ExtFixed)"

definition last_opt :: "'a list \<Rightarrow> 'a option" where
  "last_opt xs = (case xs of [] \<Rightarrow> None | _ \<Rightarrow> Some (last xs))"

definition head_opt :: "'a list \<Rightarrow> 'a option" where
  "head_opt xs = (case xs of [] \<Rightarrow> None | x # _ \<Rightarrow> Some x)"

text \<open>
  \<^verbatim>\<open>#revert_check(candidates, parent, cbk, prev, next)\<close>. The first step gives
  \<^verbatim>\<open>next_end_idx\<close>, the array \<^verbatim>\<open>candidates\<close> (an anchor that floats is pushed to it) and
  whether the method has returned.
\<close>

definition revert_check :: "mn_ref list \<Rightarrow> node \<Rightarrow> hint \<Rightarrow> hint \<Rightarrow> rc_state \<Rightarrow> error + rc_state" where
  "revert_check cands0 parent prev next s0 =
     ebind (fixed_anchor parent next (last_opt cands0) Next (rc_tree s0)) (\<lambda>anchor.
     ebind
       (case anchor of
          AFixed f \<Rightarrow>
            ebind (propagate parent cands0 f (int (length cands0) - 1) (- 1) Prev Next (extend_of prev) s0)
              (\<lambda>(next_end_idx, s1). Inr (next_end_idx, cands0, s1, next_end_idx = None))
        | AFloating a \<Rightarrow> Inr (None, cands0 @ [a], s0, False)
        | NoAnchor \<Rightarrow> Inr (None, cands0, s0, False))
       (\<lambda>(next_end_idx, cands, s1, returned).
          if returned \<or> cands = [] then Inr s1
          else
            ebind (fixed_anchor parent prev (head_opt cands) Prev (rc_tree s1)) (\<lambda>anchor2.
              case anchor2 of
                AFixed f \<Rightarrow>
                  (case next_end_idx of
                     None \<Rightarrow>
                       ebind (propagate parent cands f 0 (int (length cands)) Next Prev ExtTrue s1)
                         (\<lambda>(_, s2). Inr s2)
                   | Some i \<Rightarrow>
                       ebind (propagate parent cands f 0 (i + 1) Next Prev ExtFalse s1)
                         (\<lambda>(_, s2). Inr s2))
              | _ \<Rightarrow> Inr s1)))"

text \<open>
  The loop \<^verbatim>\<open>for (const [mn, flags] of resolved.entries())\<close>. The map is read while the
  callback deletes from it: an entry deleted before its turn is not visited, and the flags
  are those stored when the entry is reached. No key is added during the loop.
\<close>

fun resolved_loop :: "mn_ref list \<Rightarrow> node \<Rightarrow> rc_state \<Rightarrow> error + rc_state" where
  "resolved_loop [] parent s = Inr s"
| "resolved_loop (a # as) parent s =
     (case map_of (rc_resolved s) a of
        None \<Rightarrow> resolved_loop as parent s
      | Some flags \<Rightarrow>
          ebind (revert_check [a] parent
                   (if flags AND 1 \<noteq> 0 then HMn a else HUndefined)
                   (if flags AND 2 \<noteq> 0 then HMn a else HUndefined) s)
            (\<lambda>s1. resolved_loop as parent s1))"

subsection \<open>The state assertion\<close>

text \<open>
  \<^verbatim>\<open>#assert_valid_state\<close>, which \<^verbatim>\<open>mutation\<close> runs before it returns. The first part
  checks the four index maps against the slots of every floating record and collects, for
  each promise met in a slot, the records holding it in a mutated and in an original slot.
  A slot never holds anything but \<^verbatim>\<open>undefined\<close>, \<^verbatim>\<open>null\<close>, a node or a promise, and the
  index maps are never given a key that is not a node, so the first two throws of the source
  cannot happen and are left out.
\<close>

type_synonym promise_refs = "(sp_ref \<times> mn_ref list \<times> mn_ref list) list"

definition store_push :: "mode \<Rightarrow> sp_ref \<Rightarrow> mn_ref \<Rightarrow> promise_refs \<Rightarrow> promise_refs" where
  "store_push md p a st =
     (let (ms, os) = (case map_of st p of None \<Rightarrow> ([], []) | Some r \<Rightarrow> r)
      in AList.update p (case md of Mutated \<Rightarrow> (ms @ [a], os) | Original \<Rightarrow> (ms, os @ [a])) st)"

definition check_slot ::
  "tree_mutations \<Rightarrow> mn_ref \<Rightarrow> mode \<Rightarrow> position \<Rightarrow> dir \<Rightarrow> promise_refs \<Rightarrow> error + promise_refs" where
  "check_slot t a md mnm dr st =
     (case get_side dr mnm of
        Promise p \<Rightarrow> Inr (store_push md p a st)
      | Node n \<Rightarrow>
          if idx_lookup md dr t n \<noteq> Some a
          then Inl (JsError ''indexed sibling doesn't match MutatedNode'')
          else Inr st
      | _ \<Rightarrow> Inr st)"

definition check_record :: "tree_mutations \<Rightarrow> mn_ref \<Rightarrow> mode \<Rightarrow> promise_refs \<Rightarrow> error + promise_refs" where
  "check_record t a md st =
     (case get_pos md (mn_at t a) of
        None \<Rightarrow> Inr st
      | Some mnm \<Rightarrow> ebind (check_slot t a md mnm Prev st) (check_slot t a md mnm Next))"

fun check_indexes :: "tree_mutations \<Rightarrow> mn_ref list \<Rightarrow> promise_refs \<Rightarrow> error + promise_refs" where
  "check_indexes t [] st = Inr st"
| "check_indexes t (a # as) st =
     ebind (check_record t a Original st) (\<lambda>st1.
     ebind (check_record t a Mutated st1) (\<lambda>st2. check_indexes t as st2))"

definition check_promise :: "tree_mutations \<Rightarrow> sp_ref \<times> mn_ref list \<times> mn_ref list \<Rightarrow> error + unit" where
  "check_promise t e =
     (let (p, ms, os) = e in
      if sp_ptr (sp_at t p) = None then Inl (JsError ''promise pointer is not MutatedNode'')
      else if ms = [] then Inl (JsError ''promise doesn't have a mutated pointer'')
      else if length ms > 1 then Inl (JsError ''promise has multiple mutated pointers'')
      else if sp_ptr (sp_at t p) \<noteq> Some (hd ms) then Inl (JsError ''promise pointer is incorrect'')
      else if os = [] then Inl (JsError ''promise origin was resolved, but pointer still set'')
      else if length os > 1 then Inl (JsError ''promise has multiple origins'')
      else Inr ())"

fun check_promises :: "tree_mutations \<Rightarrow> promise_refs \<Rightarrow> error + unit" where
  "check_promises t [] = Inr ()"
| "check_promises t (e # es) = ebind (check_promise t e) (\<lambda>_. check_promises t es)"

text \<open>
  \<^verbatim>\<open>check_anchor(smn, dir)\<close>: \<open>sb\<close> is the variable \<^verbatim>\<open>sibling\<close>; \<^verbatim>\<open>floating.get\<close> of
  anything but a floating node is \<^verbatim>\<open>undefined\<close>.
\<close>

fun check_anchor_walk ::
  "nat \<Rightarrow> tree_mutations \<Rightarrow> node option \<Rightarrow> sibling \<Rightarrow> dir \<Rightarrow> sibling \<Rightarrow> error + unit" where
  "check_anchor_walk 0 t parent target dr sb = Inl Diverges"
| "check_anchor_walk (Suc k) t parent target dr sb =
     (case (case sb of Node n \<Rightarrow> tm_get t n | _ \<Rightarrow> None) of
        None \<Rightarrow> if target = sb then Inl (JsError ''node position is reverted'') else Inr ()
      | Some b \<Rightarrow>
          if orig_parent t b = parent then Inr ()
          else
            (case mutated (mn_at t b) of
               None \<Rightarrow> Inr ()
             | Some m \<Rightarrow>
                 (case get_side dr m of
                    Undefined \<Rightarrow> Inr ()
                  | Promise q \<Rightarrow> Inr ()
                  | sb1 \<Rightarrow> check_anchor_walk k t parent target dr sb1)))"

definition check_anchor :: "tree_mutations \<Rightarrow> position \<Rightarrow> position \<Rightarrow> dir \<Rightarrow> error + unit" where
  "check_anchor t og m dr =
     check_anchor_walk (walk_fuel t) t (p_parent og) (get_side dr og) dr (get_side dr m)"

fun check_reverts :: "tree_mutations \<Rightarrow> mn_ref list \<Rightarrow> error + unit" where
  "check_reverts t [] = Inr ()"
| "check_reverts t (a # as) =
     (case (mutated (mn_at t a), original (mn_at t a)) of
        (Some m, Some og) \<Rightarrow>
          if p_parent m \<noteq> p_parent og then check_reverts t as
          else
            ebind (check_anchor t og m Prev) (\<lambda>_.
            ebind (check_anchor t og m Next) (\<lambda>_. check_reverts t as))
      | _ \<Rightarrow> check_reverts t as)"

definition assert_valid_state :: "tree_mutations \<Rightarrow> error + unit" where
  "assert_valid_state t =
     ebind (check_indexes t (map snd (floating t)) []) (\<lambda>promises.
     ebind (check_promises t promises) (\<lambda>_.
       check_reverts t (map snd (floating t))))"

subsection \<open>mutation\<close>

definition mut_parent :: "tree_mutations \<Rightarrow> mn_ref \<Rightarrow> node option" where
  "mut_parent t a = (case mutated (mn_at t a) of None \<Rightarrow> None | Some m \<Rightarrow> p_parent m)"

text \<open>\<^verbatim>\<open>mn?.mutated?.prev === undefined\<close> and the same for \<^verbatim>\<open>next\<close>.\<close>

definition slot_undefined :: "tree_mutations \<Rightarrow> mn_ref option \<Rightarrow> dir \<Rightarrow> bool" where
  "slot_undefined t mn dr =
     (case mn of
        None \<Rightarrow> True
      | Some a \<Rightarrow> (case mutated (mn_at t a) of None \<Rightarrow> True | Some m \<Rightarrow> get_side dr m = Undefined))"

text \<open>
  \<^verbatim>\<open>mutation(parent, removed, added, prev, next)\<close>. \<open>mutation_body\<close> is the method up to its
  final \<^verbatim>\<open>try\<close> block: the promises of the revealed window and the removals, the original
  siblings of the newly removed nodes, the window's end points, the additions and the revert
  checks. \<open>tm_mutation\<close> is the whole method: the body, then \<^verbatim>\<open>#assert_valid_state\<close>, whose
  exception is logged and thrown again.
\<close>

definition mutation_body ::
  "node \<Rightarrow> node list \<Rightarrow> node list \<Rightarrow> node option \<Rightarrow> node option \<Rightarrow> tree_mutations
     \<Rightarrow> error + tree_mutations" where
  "mutation_body parent removed added prev next t =
     ebind (handle_promises None prev False True (new_ingest t)) (\<lambda>(prev_mn, s1).
     ebind (remove_loop parent prev_mn removed s1) (\<lambda>s2.
     ebind (handle_promises prev_mn next True False s2) (\<lambda>(next_mn, s3).
       let s4 = (if resolved s3 \<noteq> [] then s3\<lparr>siblings_known := True\<rparr> else s3);
           s5 = (if siblings_known s4 \<and> slot_undefined (i_tree s4) prev_mn Prev
                      \<and> slot_undefined (i_tree s4) next_mn Next
                 then s4\<lparr>siblings_known := False\<rparr> else s4);
           s6 = s5\<lparr>resolved :=
                  filter (\<lambda>(a, flags). mut_parent (i_tree s5) a = Some parent) (resolved s5)\<rparr>
       in
       ebind (fixed_block prev_mn prev next_mn next (fixed s6) (i_tree s6)) (\<lambda>t1.
         let t2 = (case prev_mn of
                     None \<Rightarrow> t1
                   | Some a \<Rightarrow>
                       si_update Mutated a (case added of [] \<Rightarrow> of_node next | x # _ \<Rightarrow> Node x)
                         Next (Some parent) t1);
             t3 = (case next_mn of
                     None \<Rightarrow> t2
                   | Some a \<Rightarrow>
                       si_update Mutated a (case added of [] \<Rightarrow> of_node prev | _ \<Rightarrow> Node (last added))
                         Prev (Some parent) t2)
         in
         ebind (added_loop parent (of_node prev) added (of_node next) (s6\<lparr>i_tree := t3\<rparr>)) (\<lambda>s7.
         ebind
           (if revert_possible s7 \<or> siblings_known s7 \<or> candidates s7 \<noteq> [] then
              revert_check (candidates s7) parent (hint_of prev_mn prev) (hint_of next_mn next)
                \<lparr>rc_tree = i_tree s7, rc_resolved = resolved s7\<rparr>
            else Inr \<lparr>rc_tree = i_tree s7, rc_resolved = resolved s7\<rparr>) (\<lambda>r1.
         ebind (resolved_loop (map fst (rc_resolved r1)) parent r1) (\<lambda>r2.
           Inr (rc_tree r2))))))))"

definition tm_mutation ::
  "node \<Rightarrow> node list \<Rightarrow> node list \<Rightarrow> node option \<Rightarrow> node option \<Rightarrow> tree_mutations
     \<Rightarrow> error + tree_mutations" where
  "tm_mutation parent removed added prev next t =
     ebind (mutation_body parent removed added prev next t) (\<lambda>t1.
     ebind (assert_valid_state t1) (\<lambda>_. Inr t1))"

section \<open>MutationDiff\<close>

record mutation_diff =
  props :: "(node \<times> property_cache) list"
  tree :: tree_mutations

definition new_MutationDiff :: mutation_diff where
  "new_MutationDiff = \<lparr>props = [], tree = new_TreeMutations\<rparr>"

text \<open>
  \<^verbatim>\<open>#prop\<close>, \<^verbatim>\<open>attribute\<close>, \<^verbatim>\<open>data\<close>, \<^verbatim>\<open>custom\<close> and \<^verbatim>\<open>children\<close>. \<^verbatim>\<open>attribute\<close> and
  \<^verbatim>\<open>data\<close> read the current value from the live node; the values an embedder hands over
  are strings or \<^verbatim>\<open>null\<close>.
\<close>

definition md_prop ::
  "node \<Rightarrow> pmode \<Rightarrow> pkey \<Rightarrow> jsval option \<Rightarrow> jsval \<Rightarrow> mutation_diff \<Rightarrow> mutation_diff" where
  "md_prop n mode key val old_value md =
     (let c = (case map_of (props md) n of None \<Rightarrow> new_PropertyCache | Some c \<Rightarrow> c)
      in md\<lparr>props := AList.update n (mark mode key val old_value c) (props md)\<rparr>)"

definition md_attribute :: "dom \<Rightarrow> node \<Rightarrow> string \<Rightarrow> jsval \<Rightarrow> mutation_diff \<Rightarrow> mutation_diff" where
  "md_attribute d n key old_value md =
     md_prop n Native (Some key) (Some (getAttribute d n key)) old_value md"

definition md_data :: "dom \<Rightarrow> node \<Rightarrow> jsval \<Rightarrow> mutation_diff \<Rightarrow> mutation_diff" where
  "md_data d n old_value md = md_prop n Native None (get_data d n) old_value md"

definition md_custom :: "node \<Rightarrow> pkey \<Rightarrow> jsval \<Rightarrow> jsval \<Rightarrow> mutation_diff \<Rightarrow> mutation_diff" where
  "md_custom n key val old_value md = md_prop n Custom key (Some val) old_value md"

definition md_children ::
  "node \<Rightarrow> node list \<Rightarrow> node list \<Rightarrow> node option \<Rightarrow> node option \<Rightarrow> mutation_diff
     \<Rightarrow> error + mutation_diff" where
  "md_children parent removed added prev next md =
     ebind (tm_mutation parent removed added prev next (tree md)) (\<lambda>t. Inr (md\<lparr>tree := t\<rparr>))"

text \<open>
  \<^verbatim>\<open>record(r)\<close>: a \<^verbatim>\<open>switch\<close> on \<^verbatim>\<open>r.type\<close> with three cases and no \<^verbatim>\<open>default\<close>.
  A namespace counts when it is neither \<^verbatim>\<open>null\<close> nor empty.
\<close>

record mutation_record =
  r_type :: string
  r_target :: node
  r_attributeName :: string
  r_attributeNamespace :: jsval
  r_oldValue :: jsval
  r_removedNodes :: "node list"
  r_addedNodes :: "node list"
  r_previousSibling :: "node option"
  r_nextSibling :: "node option"

definition md_record :: "dom \<Rightarrow> mutation_record \<Rightarrow> mutation_diff \<Rightarrow> error + mutation_diff" where
  "md_record d r md =
     (if r_type r = ''attributes'' then
        (let name = (case r_attributeNamespace r of
                       None \<Rightarrow> r_attributeName r
                     | Some ns \<Rightarrow> if ns = [] then r_attributeName r else ns @ '':'' @ r_attributeName r)
         in Inr (md_attribute d (r_target r) name (r_oldValue r) md))
      else if r_type r = ''characterData'' then Inr (md_data d (r_target r) (r_oldValue r) md)
      else if r_type r = ''childList'' then
        md_children (r_target r) (r_removedNodes r) (r_addedNodes r)
          (r_previousSibling r) (r_nextSibling r) md
      else Inr md)"

text \<open>
  \<^verbatim>\<open>mutated(root)\<close>. A count is true when it is not zero.
  \<^verbatim>\<open>root.compareDocumentPosition(node) & DOCUMENT_POSITION_CONTAINED_BY\<close> holds of the
  descendants of \<open>root\<close>.
\<close>

definition tm_size :: "tree_mutations \<Rightarrow> nat" where
  "tm_size t = length (floating t)"

definition md_mutated :: "dom \<Rightarrow> node option \<Rightarrow> mutation_diff \<Rightarrow> bool" where
  "md_mutated d root md =
     (case root of
        Some r \<Rightarrow>
          (if list_ex (\<lambda>(n, c). pc_dirty c \<noteq> 0 \<and> n \<noteq> r \<and> dom_contains d r n) (props md) then True
           else
             list_ex
               (\<lambda>(n, a).
                  (case original (mn_at (tree md) a) of
                     None \<Rightarrow> False
                   | Some og \<Rightarrow> (case p_parent og of None \<Rightarrow> False | Some p \<Rightarrow> dom_contains d r p))
                  \<or> (case parentNode d (mn_node (mn_at (tree md) a)) of
                        None \<Rightarrow> False
                      | Some p \<Rightarrow> dom_contains d r p))
               (floating (tree md)))
      | None \<Rightarrow>
          (if tm_size (tree md) \<noteq> 0 then True
           else list_ex (\<lambda>(n, c). pc_dirty c \<noteq> 0) (props md)))"

subsection \<open>diff\<close>

text \<open>
  The bit masks (\<open>ALL_MASK\<close> is the static \<^verbatim>\<open>ALL\<close>). The class defines \<^verbatim>\<open>ATTRIBUTE\<close>; \<^verbatim>\<open>diff\<close> tests
  \<^verbatim>\<open>filter & MutationDiff.ATTRIBUTES\<close>, a static the class does not have: the property read
  gives \<^verbatim>\<open>undefined\<close>, which \<^verbatim>\<open>&\<close> converts to 0. The filter is a number that \<^verbatim>\<open>&\<close>
  converts to 32 bits.
\<close>

definition ALL_MASK :: "32 word" where "ALL_MASK = 0xFFFF"
definition MUTATED :: "32 word" where "MUTATED = 0b10000"
definition ORIGINAL :: "32 word" where "ORIGINAL = 0b100000"
definition PROPERTY :: "32 word" where "PROPERTY = 0b111"
definition DATA :: "32 word" where "DATA = 0b1"
definition ATTRIBUTE :: "32 word" where "ATTRIBUTE = 0b10"
definition CUSTOM :: "32 word" where "CUSTOM = 0b100"
definition CHILDREN :: "32 word" where "CHILDREN = 0b1000"
definition ATTRIBUTES :: "32 word" where "ATTRIBUTES = 0"

text \<open>
  The output: an object per node with the optional members \<^verbatim>\<open>data\<close>, \<^verbatim>\<open>attribute\<close>,
  \<^verbatim>\<open>custom\<close> and \<^verbatim>\<open>children\<close>; each difference has the optional members \<^verbatim>\<open>original\<close> and
  \<^verbatim>\<open>mutated\<close>. \<open>None\<close> is a member that reads \<^verbatim>\<open>undefined\<close>: it is absent, or it was
  assigned \<^verbatim>\<open>node.data\<close> of a node without that property.
\<close>

record value_diff =
  vd_original :: "jsval option"
  vd_mutated :: "jsval option"

record children_diff =
  cd_original :: "position option option"
  cd_mutated :: "position option option"

record node_log =
  log_data :: "value_diff option"
  log_attribute :: "(string \<times> value_diff) list option"
  log_custom :: "(pkey \<times> value_diff) list option"
  log_children :: "children_diff option"

definition empty_log :: node_log where
  "empty_log = \<lparr>log_data = None, log_attribute = None, log_custom = None, log_children = None\<rparr>"

definition diff_data :: "bool \<Rightarrow> bool \<Rightarrow> dom \<Rightarrow> node \<Rightarrow> property_cache \<Rightarrow> value_diff option" where
  "diff_data forig fmut d n cache =
     (case map_of (native cache) None of
        None \<Rightarrow> None
      | Some op \<Rightarrow>
          if e_dirty op then
            Some \<lparr>vd_original = (if forig then Some (e_value op) else None),
                  vd_mutated = (if fmut then get_data d n else None)\<rparr>
          else None)"

definition diff_attrs ::
  "bool \<Rightarrow> bool \<Rightarrow> dom \<Rightarrow> node \<Rightarrow> property_cache \<Rightarrow> (string \<times> value_diff) list" where
  "diff_attrs forig fmut d n cache =
     fold (\<lambda>(key, op) attrs.
             case key of
               None \<Rightarrow> attrs
             | Some k \<Rightarrow>
                 if \<not> e_dirty op then attrs
                 else AList.update k
                        \<lparr>vd_original = (if forig then Some (e_value op) else None),
                         vd_mutated = (if fmut then Some (getAttribute d n k) else None)\<rparr> attrs)
          (native cache) []"

definition diff_custom ::
  "bool \<Rightarrow> bool \<Rightarrow> (node \<Rightarrow> pkey \<Rightarrow> jsval) option \<Rightarrow> node \<Rightarrow> property_cache
     \<Rightarrow> (pkey \<times> value_diff) list" where
  "diff_custom forig fmut custom_getter n cache =
     fold (\<lambda>(key, op) cus.
             if \<not> e_dirty op then cus
             else AList.update key
                    \<lparr>vd_original = (if forig then Some (e_value op) else None),
                     vd_mutated = (case custom_getter of
                                     None \<Rightarrow> None
                                   | Some g \<Rightarrow> if fmut then Some (g n key) else None)\<rparr> cus)
          (custom cache) []"

definition diff_props ::
  "32 word \<Rightarrow> (node \<Rightarrow> pkey \<Rightarrow> jsval) option \<Rightarrow> dom \<Rightarrow> node \<times> property_cache
     \<Rightarrow> (node \<times> node_log) list \<Rightarrow> (node \<times> node_log) list" where
  "diff_props filter' custom_getter d e out =
     (let (n, cache) = e;
          forig = (filter' AND ORIGINAL \<noteq> 0);
          fmut = (filter' AND MUTATED \<noteq> 0)
      in if pc_dirty cache = 0 then out
         else
           (let dat = (if filter' AND DATA \<noteq> 0 then diff_data forig fmut d n cache else None);
                ats = (if filter' AND ATTRIBUTES \<noteq> 0 then diff_attrs forig fmut d n cache else []);
                cus = (if filter' AND CUSTOM \<noteq> 0 then diff_custom forig fmut custom_getter n cache
                       else []);
                log = \<lparr>log_data = dat,
                       log_attribute = (if ats = [] then None else Some ats),
                       log_custom = (if cus = [] then None else Some cus),
                       log_children = None\<rparr>
            in if dat \<noteq> None \<or> ats \<noteq> [] \<or> cus \<noteq> [] then AList.update n log out else out))"

definition diff_children ::
  "bool \<Rightarrow> bool \<Rightarrow> tree_mutations \<Rightarrow> node \<times> mn_ref \<Rightarrow> (node \<times> node_log) list
     \<Rightarrow> (node \<times> node_log) list" where
  "diff_children forig fmut t e out =
     (let op = mn_at t (snd e);
          n = mn_node op;
          log = (case map_of out n of None \<Rightarrow> empty_log | Some l \<Rightarrow> l);
          dd = \<lparr>cd_original = (if forig then Some (original op) else None),
                cd_mutated = (if fmut then Some (mutated op) else None)\<rparr>
      in AList.update n (log\<lparr>log_children := Some dd\<rparr>) out)"

definition md_diff ::
  "32 word \<Rightarrow> (node \<Rightarrow> pkey \<Rightarrow> jsval) option \<Rightarrow> dom \<Rightarrow> mutation_diff \<Rightarrow> (node \<times> node_log) list" where
  "md_diff filter' custom_getter d md =
     (let forig = (filter' AND ORIGINAL \<noteq> 0);
          fmut = (filter' AND MUTATED \<noteq> 0)
      in if forig \<or> fmut then
           (let out1 = (if filter' AND PROPERTY \<noteq> 0
                        then fold (diff_props filter' custom_getter d) (props md) [] else [])
            in if filter' AND CHILDREN \<noteq> 0
               then fold (diff_children forig fmut (tree md)) (floating (tree md)) out1
               else out1)
         else [])"

subsection \<open>Grouping and patching moved nodes\<close>

text \<open>
  A group \<^verbatim>\<open>{nodes, parent, prev, next}\<close>; the group of removed nodes has \<^verbatim>\<open>parent: null\<close>
  and no \<^verbatim>\<open>prev\<close> or \<^verbatim>\<open>next\<close>.
\<close>

record group =
  g_nodes :: "node list"
  g_parent :: "node option"
  g_prev :: sibling
  g_next :: sibling

text \<open>
  \<^verbatim>\<open>link_siblings(group, op, dir, arrfn)\<close>: \<open>bop\<close> is the position being followed, the
  triple is the group's node array, the group's \<^verbatim>\<open>[dir]\<close> member and the set \<^verbatim>\<open>skip\<close>.
  \<^verbatim>\<open>unshift\<close> goes with \<^verbatim>\<open>prev\<close> and \<^verbatim>\<open>push\<close> with \<^verbatim>\<open>next\<close>. Every round adds a
  node to the array, so a walk caught in a cycle of links ends with \<^verbatim>\<open>RangeError\<close> when
  the array is full.
\<close>

fun link_siblings ::
  "nat \<Rightarrow> tree_mutations \<Rightarrow> mode \<Rightarrow> dir \<Rightarrow> position \<Rightarrow> node list \<times> sibling \<times> node list
     \<Rightarrow> error + node list \<times> sibling \<times> node list" where
  "link_siblings 0 t md dr bop acc = Inl RangeError"
| "link_siblings (Suc k) t md dr bop acc =
     (let (nodes, gd, skip) = acc in
      case get_side dr bop of
        Node n \<Rightarrow>
          (case tm_get t n of
             None \<Rightarrow> Inr (nodes, Node n, skip)
           | Some b \<Rightarrow>
               (let nodes1 = (case dr of Prev \<Rightarrow> n # nodes | Next \<Rightarrow> nodes @ [n]);
                    skip1 = List.insert n skip
                in case get_pos md (mn_at t b) of
                     None \<Rightarrow> Inr (nodes1, gd, skip1)
                   | Some bop1 \<Rightarrow> link_siblings k t md dr bop1 (nodes1, gd, skip1)))
      | link \<Rightarrow> Inr (nodes, link, skip))"

text \<open>
  The loop of \<^verbatim>\<open>diff_grouped_children\<close> over the floating records; the accumulator is
  \<^verbatim>\<open>skip\<close>, \<^verbatim>\<open>removed\<close> and the groups yielded so far. The generator only reads the
  floating map and the records, which its consumer \<^verbatim>\<open>patch_grouped_children\<close> does not
  write, so the groups can be computed before they are consumed.
\<close>

fun group_loop ::
  "tree_mutations \<Rightarrow> mode \<Rightarrow> bool \<Rightarrow> mn_ref list \<Rightarrow> node list \<times> node list \<times> group list
     \<Rightarrow> error + node list \<times> node list \<times> group list" where
  "group_loop t md include_removed [] acc = Inr acc"
| "group_loop t md include_removed (a # as) acc =
     (let (skip, removed, groups) = acc;
          n = mn_node (mn_at t a)
      in if n \<in> set skip then group_loop t md include_removed as (removeAll n skip, removed, groups)
         else
           (case get_pos md (mn_at t a) of
              None \<Rightarrow>
                group_loop t md include_removed as
                  (skip, if include_removed then removed @ [n] else removed, groups)
            | Some op \<Rightarrow>
                ebind (link_siblings (walk_fuel t) t md Prev op ([n], Undefined, skip))
                  (\<lambda>(nodes1, gprev, skip1).
                ebind (link_siblings (walk_fuel t) t md Next op (nodes1, Undefined, skip1))
                  (\<lambda>(nodes2, gnext, skip2).
                     group_loop t md include_removed as
                       (skip2, removed,
                        groups @ [\<lparr>g_nodes = nodes2, g_parent = p_parent op,
                                   g_prev = gprev, g_next = gnext\<rparr>])))))"

definition diff_grouped_children :: "32 word \<Rightarrow> bool \<Rightarrow> tree_mutations \<Rightarrow> error + group list" where
  "diff_grouped_children mode_bits include_removed t =
     (if mode_bits AND ORIGINAL = 0 \<and> mode_bits AND MUTATED = 0 then Inr []
      else
        ebind (group_loop t (if mode_bits AND ORIGINAL \<noteq> 0 then Original else Mutated)
                 include_removed (map snd (floating t)) ([], [], []))
          (\<lambda>(skip, removed, groups).
             Inr (if removed = [] then groups
                  else groups @ [\<lparr>g_nodes = removed, g_parent = None,
                                   g_prev = Undefined, g_next = Undefined\<rparr>])))"

text \<open>
  \<^verbatim>\<open>patch_grouped_children(groups)\<close>. A sibling is set when it is neither \<^verbatim>\<open>undefined\<close> nor
  a promise. The first loop removes every node of every group from the tree and queues the
  groups that have a parent and a set sibling; a group with a parent and no set sibling is
  reported with \<^verbatim>\<open>console.warn\<close> and not queued. The second loop places the queued groups.
\<close>

definition sibling_set :: "sibling \<Rightarrow> bool" where
  "sibling_set sb = (case sb of Undefined \<Rightarrow> False | Promise q \<Rightarrow> False | _ \<Rightarrow> True)"

definition warn_unknown :: string where
  "warn_unknown = ''MutationDiff: siblings unknown, can't patch''"

fun patch_collect ::
  "group list \<Rightarrow> dom \<times> (group \<times> bool) list \<times> string list \<Rightarrow> dom \<times> (group \<times> bool) list \<times> string list" where
  "patch_collect [] acc = acc"
| "patch_collect (g # gs) acc =
     (let (d, add, console) = acc;
          d1 = fold dom_remove (g_nodes g) d
      in if g_parent g = None then patch_collect gs (d1, add, console)
         else if \<not> sibling_set (g_next g) \<and> \<not> sibling_set (g_prev g)
         then patch_collect gs (d1, add, console @ [warn_unknown])
         else patch_collect gs (d1, add @ [(g, sibling_set (g_next g))], console))"

definition patch_place :: "group \<times> bool \<Rightarrow> dom \<Rightarrow> error + dom" where
  "patch_place op d =
     (let (g, next_set) = op in
      case g_parent g of
        None \<Rightarrow> Inl TypeError
      | Some parent \<Rightarrow>
          if next_set then
            (case g_next g of
               Node n \<Rightarrow> dom_before n (g_nodes g) d
             | _ \<Rightarrow> dom_append parent (g_nodes g) d)
          else
            (case g_prev g of
               Node n \<Rightarrow> dom_after n (g_nodes g) d
             | _ \<Rightarrow> dom_prepend parent (g_nodes g) d))"

fun patch_apply :: "(group \<times> bool) list \<Rightarrow> dom \<Rightarrow> error + dom" where
  "patch_apply [] d = Inr d"
| "patch_apply (op # ops) d = ebind (patch_place op d) (patch_apply ops)"

definition patch_grouped_children :: "group list \<Rightarrow> dom \<Rightarrow> error + dom \<times> string list" where
  "patch_grouped_children groups d =
     (let (d1, add, console) = patch_collect groups (d, [], [])
      in ebind (patch_apply add d1) (\<lambda>d2. Inr (d2, console)))"

subsection \<open>revert and clear\<close>

text \<open>
  \<^verbatim>\<open>revert(custom_revert)\<close>: the properties of every node, \<^verbatim>\<open>props.clear()\<close>, the patch of
  the groups of original positions, \<^verbatim>\<open>tree.clear()\<close>. The method has no \<^verbatim>\<open>return\<close>
  statement: the value it returns is \<^verbatim>\<open>undefined\<close>, here \<open>rr_returned = None\<close> (a returned
  string or \<^verbatim>\<open>null\<close> would be \<open>Some\<close> of it). What \<^verbatim>\<open>console.warn\<close> printed is \<open>rr_console\<close>.
\<close>

record 'u revert_result =
  rr_dom :: dom
  rr_user :: 'u
  rr_console :: "string list"
  rr_diff :: mutation_diff
  rr_returned :: "jsval option"

fun revert_props ::
  "(node \<times> property_cache) list \<Rightarrow> (node \<Rightarrow> pkey \<Rightarrow> jsval \<Rightarrow> 'u \<Rightarrow> 'u) option \<Rightarrow> dom \<times> 'u
     \<Rightarrow> error + dom \<times> 'u" where
  "revert_props [] custom_revert w = Inr w"
| "revert_props ((n, c) # ps) custom_revert w =
     ebind (pc_revert c n custom_revert w) (revert_props ps custom_revert)"

definition md_revert ::
  "(node \<Rightarrow> pkey \<Rightarrow> jsval \<Rightarrow> 'u \<Rightarrow> 'u) option \<Rightarrow> dom \<times> 'u \<Rightarrow> mutation_diff
     \<Rightarrow> error + 'u revert_result" where
  "md_revert custom_revert w md =
     ebind (revert_props (props md) custom_revert w) (\<lambda>(d1, u1).
     ebind (diff_grouped_children ORIGINAL True (tree md)) (\<lambda>groups.
     ebind (patch_grouped_children groups d1) (\<lambda>(d2, console).
       Inr \<lparr>rr_dom = d2, rr_user = u1, rr_console = console,
            rr_diff = \<lparr>props = [], tree = tm_clear (tree md)\<rparr>,
            rr_returned = None\<rparr>)))"

definition md_clear :: "mutation_diff \<Rightarrow> mutation_diff" where
  "md_clear md = \<lparr>props = [], tree = tm_clear (tree md)\<rparr>"

definition storage_size :: "mutation_diff \<Rightarrow> nat" where
  "storage_size md = length (props md) + tm_size (tree md)"

text \<open>
  The first loop of \<^verbatim>\<open>synchronize()\<close>, over the caches:
  \<^verbatim>\<open>if (!props.synchronize()) this.props.delete(node)\<close>. The second argument is the map
  being changed while its entries are visited. (The method then calls
  \<^verbatim>\<open>tree.synchronize()\<close>, which works on the tree part only.)
\<close>

fun sync_caches ::
  "(node \<times> property_cache) list \<Rightarrow> (node \<times> property_cache) list
     \<Rightarrow> error + (node \<times> property_cache) list" where
  "sync_caches [] ps = Inr ps"
| "sync_caches ((n, c) # es) ps =
     ebind (pc_synchronize c)
       (\<lambda>(cnt, c1). sync_caches es (if cnt = 0 then AList.delete n ps else AList.update n c1 ps))"

section \<open>Notions used to state the properties\<close>

text \<open>
  An entry of a cache is dirty when its flag is set; \<open>some_entry_dirty\<close> holds when some
  cache recorded for some node has a dirty entry, native or custom. \<open>counts_ok\<close> relates
  the counter \<^verbatim>\<open>_dirty\<close> to the entries.
\<close>

definition entry_dirty :: "pkey \<times> prop_entry \<Rightarrow> bool" where
  "entry_dirty kv = e_dirty (snd kv)"

definition cache_entries :: "property_cache \<Rightarrow> (pkey \<times> prop_entry) list" where
  "cache_entries c = native c @ custom c"

definition some_entry_dirty :: "mutation_diff \<Rightarrow> bool" where
  "some_entry_dirty md = list_ex (\<lambda>(n, c). list_ex entry_dirty (cache_entries c)) (props md)"

definition counts_ok :: "property_cache \<Rightarrow> bool" where
  "counts_ok c = (dirty_count c = int (length (filter entry_dirty (cache_entries c))))"

definition props_ok :: "mutation_diff \<Rightarrow> bool" where
  "props_ok md = list_all (\<lambda>(n, c). counts_ok c) (props md)"

text \<open>
  The states a \<^verbatim>\<open>MutationDiff\<close> can be in, starting from a new one. The methods that
  write the caches are \<^verbatim>\<open>attribute\<close>, \<^verbatim>\<open>data\<close>, \<^verbatim>\<open>custom\<close> (also through \<^verbatim>\<open>record\<close>),
  \<^verbatim>\<open>clear\<close>, \<^verbatim>\<open>revert\<close> and the first loop of \<^verbatim>\<open>synchronize\<close>. The tree part may be
  anything (rule \<open>r_tree\<close>): this covers what \<^verbatim>\<open>tree.synchronize()\<close> does and what a
  method that throws has done to the tree before. (A revert leaves the same state whatever
  the embedder's state is; it is taken at \<open>unit\<close>.)
\<close>

inductive reachable :: "mutation_diff \<Rightarrow> bool" where
  r_new: "reachable new_MutationDiff"
| r_attribute: "reachable md \<Longrightarrow> reachable (md_attribute d n key old_value md)"
| r_data: "reachable md \<Longrightarrow> reachable (md_data d n old_value md)"
| r_custom: "reachable md \<Longrightarrow> reachable (md_custom n key val old_value md)"
| r_children: "reachable md \<Longrightarrow> md_children parent removed added prv nxt md = Inr md'
     \<Longrightarrow> reachable md'"
| r_record: "reachable md \<Longrightarrow> md_record d r md = Inr md' \<Longrightarrow> reachable md'"
| r_clear: "reachable md \<Longrightarrow> reachable (md_clear md)"
| r_revert: "reachable md \<Longrightarrow> md_revert custom_revert w md = Inr (res :: unit revert_result)
     \<Longrightarrow> reachable (rr_diff res)"
| r_synchronize: "reachable md \<Longrightarrow> sync_caches (props md) (props md) = Inr ps
     \<Longrightarrow> reachable (md\<lparr>props := ps\<rparr>)"
| r_tree: "reachable md \<Longrightarrow> reachable (md\<lparr>tree := t\<rparr>)"

text \<open>
  A group that \<^verbatim>\<open>patch_grouped_children\<close> can place has a parent and a set sibling; one it
  cannot place has a parent and no set sibling.
\<close>

definition placeable :: "group \<Rightarrow> bool" where
  "placeable g = (g_parent g \<noteq> None \<and> (sibling_set (g_next g) \<or> sibling_set (g_prev g)))"

definition unplaceable :: "group \<Rightarrow> bool" where
  "unplaceable g = (g_parent g \<noteq> None \<and> \<not> sibling_set (g_next g) \<and> \<not> sibling_set (g_prev g))"






subsection \<open>Concrete inputs\<close>

text \<open>A root 0 with the children 1, 2, 3, all HTML elements; node 1 has \<^verbatim>\<open>class="y"\<close>.\<close>

definition ex_dom :: dom where
  "ex_dom = \<lparr>forest = [DNode 0 [DNode 1 [], DNode 2 [], DNode 3 []]],
             html = [0, 1, 2, 3],
             attrs = [(1, [\<lparr>a_namespace = None, a_prefix = None, a_local = ''class'',
                            a_value = ''y''\<rparr>])],
             cdata = [], own_data = []\<rparr>"

text \<open>The attribute \<^verbatim>\<open>class\<close> of node 1 was \<^verbatim>\<open>"x"\<close> and is now \<^verbatim>\<open>"y"\<close>: one dirty entry.\<close>

definition ex_dirty_attr :: mutation_diff where
  "ex_dirty_attr = md_attribute ex_dom 1 ''class'' (Some ''x'') new_MutationDiff"

text \<open>A cache with one clean attribute entry.\<close>

definition ex_clean_cache :: property_cache where
  "ex_clean_cache =
     \<lparr>native = [(Some ''class'', \<lparr>e_value = Some ''x'', e_dirty = False\<rparr>)], custom = [],
      clean_count = 1, dirty_count = 0\<rparr>"

text \<open>A notification whose \<^verbatim>\<open>type\<close> is none of the three kinds.\<close>

definition ex_unknown_record :: mutation_record where
  "ex_unknown_record =
     \<lparr>r_type = ''bogus'', r_target = 1, r_attributeName = ''class'', r_attributeNamespace = None,
      r_oldValue = Some ''x'', r_removedNodes = [2], r_addedNodes = [3],
      r_previousSibling = None, r_nextSibling = None\<rparr>"

text \<open>
  Calls of \<^verbatim>\<open>TreeMutations.mutation\<close> in sequence, one per child-list notification
  \<open>(parent, removed, added, prev, next)\<close>; the first exception ends the sequence.
\<close>

fun mutations ::
  "(node \<times> node list \<times> node list \<times> node option \<times> node option) list \<Rightarrow> tree_mutations
     \<Rightarrow> error + tree_mutations" where
  "mutations [] t = Inr t"
| "mutations ((parent, removed, added, prv, nxt) # ms) t =
     ebind (tm_mutation parent removed added prv nxt t) (mutations ms)"

text \<open>
  The root 0 has the children 4, 1, 2, 3, and \<^verbatim>\<open>root.prepend(n1, n2, n3)\<close> makes them
  1, 2, 3, 4. The call is observed as three removals (of 1, of 2, of 3, each after node 4)
  and one insertion of the three nodes before node 4. \<open>ex_c2_before\<close> is the state after
  the three removals, \<open>ex_c2_after\<close> the state after the insertion.
\<close>

definition ex_c2_removals :: "(node \<times> node list \<times> node list \<times> node option \<times> node option) list" where
  "ex_c2_removals =
     [(0, [1], [], Some 4, Some 2), (0, [2], [], Some 4, Some 3), (0, [3], [], Some 4, None)]"

definition ex_c2_before :: tree_mutations where
  "ex_c2_before =
     \<lparr>floating = [(1, 0), (2, 1), (3, 2)],
      original_index = \<lparr>idx_prev = [(4, 0), (1, 1), (2, 2)], idx_next = [(2, 0), (3, 1)]\<rparr>,
      mutated_index = \<lparr>idx_prev = [], idx_next = []\<rparr>,
      mn_heap =
        [(0, \<lparr>mn_node = 1,
               original = Some \<lparr>p_parent = Some 0, p_prev = Node 4, p_next = Node 2\<rparr>,
               mutated = None\<rparr>),
         (1, \<lparr>mn_node = 2,
               original = Some \<lparr>p_parent = Some 0, p_prev = Node 1, p_next = Node 3\<rparr>,
               mutated = None\<rparr>),
         (2, \<lparr>mn_node = 3,
               original = Some \<lparr>p_parent = Some 0, p_prev = Node 2, p_next = Null\<rparr>,
               mutated = None\<rparr>)],
      sp_heap =
        [(0, \<lparr>sp_mn = 0, sp_dir = Prev, sp_ptr = None\<rparr>),
         (1, \<lparr>sp_mn = 0, sp_dir = Next, sp_ptr = None\<rparr>),
         (2, \<lparr>sp_mn = 1, sp_dir = Next, sp_ptr = None\<rparr>),
         (3, \<lparr>sp_mn = 2, sp_dir = Next, sp_ptr = None\<rparr>)]\<rparr>"






text \<open>
  Nodes 5 and 6 are the children of node 10 and are removed from it, observed. Unobserved,
  they are then inserted into node 0 around its child 1, after which node 1 is removed,
  observed, between 5 and 6. \<open>ex_c9_dom\<close> is the tree at that point and \<open>ex_c9_diff\<close>
  the state of the diff (the three notifications are accepted).
\<close>

definition ex_c9_stream :: "(node \<times> node list \<times> node list \<times> node option \<times> node option) list" where
  "ex_c9_stream =
     [(10, [5], [], None, Some 6), (10, [6], [], None, None), (0, [1], [], Some 5, Some 6)]"

definition ex_c9_dom :: dom where
  "ex_c9_dom =
     \<lparr>forest = [DNode 10 [], DNode 0 [DNode 5 [], DNode 6 []], DNode 1 []],
      html = [10, 0, 5, 6, 1], attrs = [], cdata = [], own_data = []\<rparr>"

definition ex_c9_diff :: mutation_diff where
  "ex_c9_diff =
     \<lparr>props = [],
      tree = (case mutations ex_c9_stream new_TreeMutations of
                Inr t \<Rightarrow> t
              | Inl e \<Rightarrow> new_TreeMutations)\<rparr>"

definition ex_known_group :: group where
  "ex_known_group = \<lparr>g_nodes = [5, 6], g_parent = Some 10, g_prev = Null, g_next = Null\<rparr>"

definition ex_unknown_group :: group where
  "ex_unknown_group = \<lparr>g_nodes = [1], g_parent = Some 0, g_prev = Promise 3, g_next = Promise 4\<rparr>"

text \<open>
  The same with a second parent: node 20 has the children 7, 8, 9, and node 8 is then removed
  from it, observed. \<open>ex_c9_wide_dom\<close> is the tree at that point and \<open>ex_c9_wide_diff\<close> the
  state of the diff. There are three groups: nodes 5 and 6, to be appended to node 10; node 1,
  whose siblings are unknown; node 8, to be put before node 9.
\<close>

definition ex_c9_wide_stream ::
  "(node \<times> node list \<times> node list \<times> node option \<times> node option) list" where
  "ex_c9_wide_stream = ex_c9_stream @ [(20, [8], [], Some 7, Some 9)]"

definition ex_c9_wide_dom :: dom where
  "ex_c9_wide_dom =
     \<lparr>forest = [DNode 10 [], DNode 0 [DNode 5 [], DNode 6 []], DNode 1 [],
                DNode 20 [DNode 7 [], DNode 9 []], DNode 8 []],
      html = [10, 0, 5, 6, 1, 20, 7, 8, 9], attrs = [], cdata = [], own_data = []\<rparr>"

definition ex_c9_wide_diff :: mutation_diff where
  "ex_c9_wide_diff =
     \<lparr>props = [],
      tree = (case mutations ex_c9_wide_stream new_TreeMutations of
                Inr t \<Rightarrow> t
              | Inl e \<Rightarrow> new_TreeMutations)\<rparr>"

definition ex_second_group :: group where
  "ex_second_group = \<lparr>g_nodes = [8], g_parent = Some 20, g_prev = Node 7, g_next = Node 9\<rparr>"

text \<open>
  Node 1 has an attribute with the namespace \<^verbatim>\<open>urn:x\<close>, no prefix and the local name
  \<^verbatim>\<open>a\<close>. \<^verbatim>\<open>setAttributeNS("urn:x", "a", "new")\<close> changes its value from \<^verbatim>\<open>old\<close> to
  \<^verbatim>\<open>new\<close>; the observer's notification names the attribute by its local name and its
  namespace and carries the old value.
\<close>

definition ex_ns_original :: dom where
  "ex_ns_original =
     \<lparr>forest = [DNode 0 [DNode 1 []]],
      html = [0, 1],
      attrs = [(1, [\<lparr>a_namespace = Some ''urn:x'', a_prefix = None, a_local = ''a'',
                     a_value = ''old''\<rparr>])],
      cdata = [], own_data = []\<rparr>"

definition ex_ns_mutated :: dom where
  "ex_ns_mutated = setAttributeNS 1 (Some ''urn:x'') ''a'' ''new'' ex_ns_original"

definition ex_ns_record :: mutation_record where
  "ex_ns_record =
     \<lparr>r_type = ''attributes'', r_target = 1, r_attributeName = ''a'',
      r_attributeNamespace = Some ''urn:x'', r_oldValue = Some ''old'', r_removedNodes = [],
      r_addedNodes = [], r_previousSibling = None, r_nextSibling = None\<rparr>"

section \<open>Properties of PropertyCache\<close>

lemma update_fresh: "map_of m k = None \<Longrightarrow> AList.update k v m = m @ [(k, v)]"
  by (induction m) (auto split: if_splits)

lemma update_present_count:
  "map_of m k = Some e \<Longrightarrow>
     int (length (filter entry_dirty (AList.update k e' m)))
       = int (length (filter entry_dirty m)) + (if e_dirty e' then 1 else 0)
           - (if e_dirty e then 1 else 0)"
  by (induction m) (auto simp: entry_dirty_def split: if_splits)

lemma counts_ok_new: "counts_ok new_PropertyCache"
  by (simp add: counts_ok_def new_PropertyCache_def cache_entries_def)

lemma counts_ok_mark: "counts_ok c \<Longrightarrow> counts_ok (mark mode key val old_value c)"
proof (cases "map_of (pc_get mode c) key")
  case None
  assume ok: "counts_ok c"
  from None ok show ?thesis
    by (cases mode)
       (auto simp: mark_def Let_def pc_get_def pc_put_def counts_ok_def cache_entries_def
          update_fresh entry_dirty_def)
next
  case (Some e)
  assume ok: "counts_ok c"
  from Some ok update_present_count[OF Some, of "e\<lparr>e_dirty := val \<noteq> Some (e_value e)\<rparr>"] show ?thesis
    by (cases mode)
       (auto simp: mark_def Let_def pc_get_def pc_put_def counts_ok_def cache_entries_def)
qed

text \<open>
  C7. \<^verbatim>\<open>PropertyCache.revert\<close> with a callback never calls it: after the native entries
  are restored, reading the unbound name \<^verbatim>\<open>props\<close> throws \<^verbatim>\<open>ReferenceError\<close>, whatever the
  cache, the node, the callback and the tree are.
\<close>

theorem revert_with_callback_throws: "pc_revert c n (Some f) w = Inl ReferenceError"
  by (simp add: pc_revert_def unbound_props_def ebind_def split: prod.splits)

text \<open>
  C6. \<^verbatim>\<open>PropertyCache.synchronize\<close> on a cache that holds one clean attribute entry throws
  \<^verbatim>\<open>TypeError\<close>; it neither removes the entry nor returns a count.
\<close>

theorem synchronize_throws_on_clean_entry: "pc_synchronize ex_clean_cache = Inl TypeError"
  by (simp add: pc_synchronize_def ex_clean_cache_def destructure_entry_def ebind_def)

section \<open>Properties of MutationDiff\<close>

lemma list_all_update:
  "list_all P ps \<Longrightarrow> P (k, v) \<Longrightarrow> list_all P (AList.update k v ps)"
  by (induction ps) (auto split: if_splits)

lemma map_of_list_all: "list_all (\<lambda>(n, c). Q c) ps \<Longrightarrow> map_of ps n = Some c \<Longrightarrow> Q c"
  by (induction ps) (auto split: if_splits)

lemma props_ok_prop: "props_ok md \<Longrightarrow> props_ok (md_prop n mode key val old_value md)"
  unfolding props_ok_def md_prop_def Let_def
  by (cases "map_of (props md) n")
     (auto intro!: list_all_update counts_ok_mark counts_ok_new dest: map_of_list_all)

lemma props_ok_children:
  "props_ok md \<Longrightarrow> md_children parent removed added prv nxt md = Inr md' \<Longrightarrow> props_ok md'"
  by (auto simp: md_children_def ebind_def props_ok_def split: sum.splits)

lemma props_ok_record: "props_ok md \<Longrightarrow> md_record d r md = Inr md' \<Longrightarrow> props_ok md'"
  by (auto simp: md_record_def md_attribute_def md_data_def Let_def split: if_splits option.splits
        dest: props_ok_children intro: props_ok_prop)

lemma props_ok_revert: "md_revert custom_revert w md = Inr res \<Longrightarrow> props_ok (rr_diff res)"
  by (auto simp: md_revert_def ebind_def props_ok_def split: sum.splits prod.splits)

lemma pc_synchronize_ok: "pc_synchronize c = Inr (cnt, c1) \<Longrightarrow> counts_ok c1"
proof -
  assume a: "pc_synchronize c = Inr (cnt, c1)"
  have n: "native c = []"
    using a by (cases "native c")
      (auto simp: pc_synchronize_def ebind_def destructure_entry_def split: sum.splits)
  have m: "custom c = []"
    using a n by (cases "custom c")
      (auto simp: pc_synchronize_def ebind_def destructure_entry_def split: sum.splits)
  from a n m show ?thesis
    by (auto simp: pc_synchronize_def ebind_def counts_ok_def cache_entries_def pc_size_def)
qed

lemma list_all_delete: "list_all P ps \<Longrightarrow> list_all P (AList.delete k ps)"
  by (induction ps) auto

lemma sync_caches_ok:
  "list_all (\<lambda>(n, c). counts_ok c) ps \<Longrightarrow> sync_caches es ps = Inr ps' \<Longrightarrow>
     list_all (\<lambda>(n, c). counts_ok c) ps'"
proof (induction es arbitrary: ps)
  case Nil
  then show ?case by simp
next
  case (Cons e es)
  obtain n c where e: "e = (n, c)" by (cases e)
  from Cons.prems(2) e obtain cnt c1 where
    s: "pc_synchronize c = Inr (cnt, c1)" and
    r: "sync_caches es (if cnt = 0 then AList.delete n ps else AList.update n c1 ps) = Inr ps'"
    by (auto simp: ebind_def split: sum.splits)
  have "list_all (\<lambda>(n, c). counts_ok c) (if cnt = 0 then AList.delete n ps else AList.update n c1 ps)"
    using Cons.prems(1) pc_synchronize_ok[OF s] by (auto intro: list_all_delete list_all_update)
  from Cons.IH[OF this r] show ?case .
qed

lemma reachable_props_ok: "reachable md \<Longrightarrow> props_ok md"
proof (induction rule: reachable.induct)
  case r_new
  show ?case by (simp add: props_ok_def new_MutationDiff_def)
next
  case (r_attribute md d n key old_value)
  then show ?case by (simp add: md_attribute_def props_ok_prop)
next
  case (r_data md d n old_value)
  then show ?case by (simp add: md_data_def props_ok_prop)
next
  case (r_custom md n key val old_value)
  then show ?case by (simp add: md_custom_def props_ok_prop)
next
  case (r_children md parent removed added prv nxt md')
  then show ?case by (blast intro: props_ok_children)
next
  case (r_record md d r md')
  then show ?case by (blast intro: props_ok_record)
next
  case (r_clear md)
  show ?case by (simp add: md_clear_def props_ok_def)
next
  case (r_revert md custom_revert w res)
  then show ?case by (blast intro: props_ok_revert)
next
  case (r_synchronize md ps)
  then show ?case by (auto simp: props_ok_def intro: sync_caches_ok)
next
  case (r_tree md t)
  then show ?case by (simp add: props_ok_def)
qed

lemma dirty_count_iff: "counts_ok c \<Longrightarrow> (pc_dirty c \<noteq> 0) = list_ex entry_dirty (cache_entries c)"
  by (auto simp: counts_ok_def pc_dirty_def list_ex_iff filter_empty_conv)

lemma list_ex_cong_all:
  "list_all (\<lambda>(n, c). Q c) ps \<Longrightarrow> (\<And>c. Q c \<Longrightarrow> f c = g c) \<Longrightarrow>
     list_ex (\<lambda>(n, c). f c) ps = list_ex (\<lambda>(n, c). g c) ps"
  by (induction ps) auto

text \<open>
  C3. In every state the methods produce, \<^verbatim>\<open>mutated(null)\<close> is true exactly when the
  floating set is not empty or some cache entry of some node is dirty.
\<close>

theorem mutated_iff_nonempty:
  assumes "reachable md"
  shows "md_mutated d None md = (floating (tree md) \<noteq> [] \<or> some_entry_dirty md)"
proof -
  have ok: "list_all (\<lambda>(n, c). counts_ok c) (props md)"
    using reachable_props_ok[OF assms] by (simp add: props_ok_def)
  have "list_ex (\<lambda>(n, c). pc_dirty c \<noteq> 0) (props md)
          = list_ex (\<lambda>(n, c). list_ex entry_dirty (cache_entries c)) (props md)"
    by (rule list_ex_cong_all[OF ok]) (rule dirty_count_iff)
  then show ?thesis
    by (auto simp: md_mutated_def tm_size_def some_entry_dirty_def)
qed

lemma ex_dirty_attr_value:
  "ex_dirty_attr =
     \<lparr>props = [(1, \<lparr>native = [(Some ''class'', \<lparr>e_value = Some ''x'', e_dirty = True\<rparr>)],
                    custom = [], clean_count = 0, dirty_count = 1\<rparr>)],
      tree = new_TreeMutations\<rparr>"
  by (simp add: ex_dirty_attr_def md_attribute_def md_prop_def new_MutationDiff_def mark_def
        new_PropertyCache_def pc_get_def pc_put_def getAttribute_def node_attrs_def
        qualified_name_def ex_dom_def)

theorem mutated_iff_nonempty_witness:
  "reachable ex_dirty_attr \<and> md_mutated ex_dom None ex_dirty_attr
     \<and> floating (tree ex_dirty_attr) = [] \<and> some_entry_dirty ex_dirty_attr"
proof -
  have r: "reachable ex_dirty_attr"
    unfolding ex_dirty_attr_def by (rule r_attribute) (rule r_new)
  have s: "some_entry_dirty ex_dirty_attr"
    by (simp add: ex_dirty_attr_value some_entry_dirty_def cache_entries_def entry_dirty_def)
  have f: "floating (tree ex_dirty_attr) = []"
    by (simp add: ex_dirty_attr_value new_TreeMutations_def)
  from mutated_iff_nonempty[OF r, of ex_dom] s r f show ?thesis by simp
qed

text \<open>
  C5. With the attribute \<^verbatim>\<open>class\<close> of node 1 dirty, \<^verbatim>\<open>diff(ALL)\<close> returns a map without
  an entry for node 1 (the empty map): the attribute block is guarded by the undefined
  \<^verbatim>\<open>MutationDiff.ATTRIBUTES\<close>.
\<close>

theorem diff_all_omits_dirty_attribute: "md_diff ALL_MASK None ex_dom ex_dirty_attr = []"
  by (simp add: md_diff_def ex_dirty_attr_value ALL_MASK_def ORIGINAL_def MUTATED_def
        PROPERTY_def CHILDREN_def DATA_def ATTRIBUTES_def CUSTOM_def diff_props_def pc_dirty_def
        diff_data_def diff_custom_def new_TreeMutations_def)

text \<open>
  C10. A filter with neither the \<^verbatim>\<open>ORIGINAL\<close> nor the \<^verbatim>\<open>MUTATED\<close> bit gives the empty
  map, whatever the other bits and the state are.
\<close>

theorem diff_empty_without_side_bits:
  "filter' AND ORIGINAL = 0 \<Longrightarrow> filter' AND MUTATED = 0 \<Longrightarrow> md_diff filter' custom_getter d md = []"
  by (simp add: md_diff_def)

theorem diff_empty_without_side_bits_witness:
  "(PROPERTY OR CHILDREN) AND ORIGINAL = 0 \<and> (PROPERTY OR CHILDREN) AND MUTATED = 0
     \<and> some_entry_dirty ex_dirty_attr
     \<and> md_diff (PROPERTY OR CHILDREN) None ex_dom ex_dirty_attr = []"
proof -
  have a: "(PROPERTY OR CHILDREN) AND ORIGINAL = 0"
    by (simp add: PROPERTY_def CHILDREN_def ORIGINAL_def)
  have b: "(PROPERTY OR CHILDREN) AND MUTATED = 0"
    by (simp add: PROPERTY_def CHILDREN_def MUTATED_def)
  have s: "some_entry_dirty ex_dirty_attr"
    by (simp add: ex_dirty_attr_value some_entry_dirty_def cache_entries_def entry_dirty_def)
  from diff_empty_without_side_bits[OF a b, of None ex_dom ex_dirty_attr] a b s
  show ?thesis by simp
qed

text \<open>
  C8, as the code has it. A notification whose type is none of \<^verbatim>\<open>attributes\<close>,
  \<^verbatim>\<open>characterData\<close>, \<^verbatim>\<open>childList\<close> is ignored: \<^verbatim>\<open>record\<close> returns normally and the state
  is unchanged.
\<close>

theorem record_unknown_kind_ignored:
  "r_type r \<noteq> ''attributes'' \<Longrightarrow> r_type r \<noteq> ''characterData'' \<Longrightarrow> r_type r \<noteq> ''childList''
     \<Longrightarrow> md_record d r md = Inr md"
  by (simp add: md_record_def)

theorem record_unknown_kind_ignored_witness:
  "r_type ex_unknown_record \<noteq> ''attributes'' \<and> r_type ex_unknown_record \<noteq> ''characterData''
     \<and> r_type ex_unknown_record \<noteq> ''childList''
     \<and> md_record ex_dom ex_unknown_record ex_dirty_attr = Inr ex_dirty_attr"
proof -
  have a: "r_type ex_unknown_record \<noteq> ''attributes''" by (simp add: ex_unknown_record_def)
  have b: "r_type ex_unknown_record \<noteq> ''characterData''" by (simp add: ex_unknown_record_def)
  have c: "r_type ex_unknown_record \<noteq> ''childList''" by (simp add: ex_unknown_record_def)
  from record_unknown_kind_ignored[OF a b c, of ex_dom ex_dirty_attr] a b c
  show ?thesis by simp
qed

text \<open>
  C8, as stated, fails: the notification of type \<^verbatim>\<open>bogus\<close> is not rejected with an error.
\<close>

theorem record_unknown_kind_not_rejected:
  "md_record ex_dom ex_unknown_record new_MutationDiff = Inr new_MutationDiff"
  by (simp add: md_record_def ex_unknown_record_def)

text \<open>
  C1. The change of a namespaced attribute, faithfully recorded, is not reverted: \<^verbatim>\<open>record\<close>
  files it under the key \<^verbatim>\<open>urn:x:a\<close> (namespace, colon, local name), which is not the
  attribute's qualified name \<^verbatim>\<open>a\<close>. \<^verbatim>\<open>getAttribute\<close> finds nothing under that key, and
  \<^verbatim>\<open>revert\<close> sets a new attribute of that name to the old value; the changed attribute
  keeps its new value, so the tree after \<^verbatim>\<open>revert()\<close> is not the original tree.
\<close>

theorem revert_misses_namespaced_attribute:
  "ex_ns_mutated = ex_ns_original\<lparr>attrs :=
       [(1, [\<lparr>a_namespace = Some ''urn:x'', a_prefix = None, a_local = ''a'', a_value = ''new''\<rparr>])]\<rparr>
   \<and> (case md_record ex_ns_mutated ex_ns_record new_MutationDiff of
         Inr md \<Rightarrow>
           (case md_revert None (ex_ns_mutated, ()) md of
              Inr res \<Rightarrow>
                attrs (rr_dom res) =
                  [(1, [\<lparr>a_namespace = Some ''urn:x'', a_prefix = None, a_local = ''a'',
                          a_value = ''new''\<rparr>,
                        \<lparr>a_namespace = None, a_prefix = None, a_local = ''urn:x:a'',
                          a_value = ''old''\<rparr>])]
                \<and> rr_dom res \<noteq> ex_ns_original
            | Inl e \<Rightarrow> False)
       | Inl e \<Rightarrow> False)"
  by code_simp

section \<open>Properties of TreeMutations\<close>

subsection \<open>What the operations leave alone\<close>






















subsection \<open>The revert check removes an anchored candidate\<close>








subsection \<open>A node put back next to its fixed original sibling\<close>

























subsection \<open>The floating set after a call\<close>









lemma ex_c2_before_reached: "mutations ex_c2_removals new_TreeMutations = Inr ex_c2_before"
  by code_simp











text \<open>
  C4. Node 5 is removed from node 10, observed, and inserted unobserved before node 1, the
  only child of node 0. The observed removal of node 1 leaves a promise (number 2) in the
  mutated \<^verbatim>\<open>prev\<close> slot of node 5. A node 7 is then inserted unobserved after node 5 and
  removed, observed: the walk of its promise starts at node 5, reads that slot and resolves
  to the promise found there, so the original \<^verbatim>\<open>prev\<close> of node 7 is promise 2, and the
  method's own assertion throws.
\<close>

theorem resume_walk_reads_promise_slot:
  "(case mutations [(10, [5], [], None, Some 6), (0, [1], [], Some 5, None)] new_TreeMutations of
      Inr t \<Rightarrow>
        (case tm_get t 5 of
           Some x \<Rightarrow> map_option p_prev (mutated (mn_at t x)) = Some (Promise 2)
         | None \<Rightarrow> False)
        \<and> (case mutation_body 0 [7] [] (Some 5) None t of
             Inr t' \<Rightarrow>
               (case tm_get t' 7 of
                  Some f \<Rightarrow> map_option p_prev (original (mn_at t' f)) = Some (Promise 2)
                | None \<Rightarrow> False)
           | Inl e \<Rightarrow> False)
        \<and> tm_mutation 0 [7] [] (Some 5) None t = Inl (JsError ''promise has multiple origins'')
    | Inl e \<Rightarrow> False)"
  by code_simp

section \<open>Properties of revert\<close>

lemma patch_collect_char:
  "patch_collect groups (d, add, console) =
     (fold dom_remove (concat (map g_nodes groups)) d,
      add @ map (\<lambda>g. (g, sibling_set (g_next g))) (filter placeable groups),
      console @ map (\<lambda>g. warn_unknown) (filter unplaceable groups))"
  by (induction groups arbitrary: d add console) (auto simp: placeable_def unplaceable_def Let_def)

lemma ebind_Inl: "ebind (Inl e) f = Inl e"
  by (simp add: ebind_def)

lemma ebind_Inr: "ebind (Inr x) f = f x"
  by (simp add: ebind_def)

lemma place_after_error: "fold (\<lambda>op r. ebind r (f op)) ops (Inl e) = Inl e"
  by (induction ops) (simp_all add: ebind_Inl)

lemma patch_apply_fold:
  "patch_apply ops d = fold (\<lambda>op r. ebind r (patch_place op)) ops (Inr d)"
proof (induction ops arbitrary: d)
  case Nil
  show ?case by simp
next
  case (Cons op ops)
  show ?case
  proof (cases "patch_place op d")
    case (Inl e)
    then show ?thesis by (simp add: ebind_Inl ebind_Inr place_after_error)
  next
    case (Inr d1)
    then show ?thesis using Cons.IH[of d1] by (simp add: ebind_Inr)
  qed
qed

lemma patch_grouped_children_char:
  "patch_grouped_children groups d =
     ebind (fold (\<lambda>g r. ebind r (patch_place (g, sibling_set (g_next g)))) (filter placeable groups)
              (Inr (fold dom_remove (concat (map g_nodes groups)) d)))
       (\<lambda>d2. Inr (d2, map (\<lambda>g. warn_unknown) (filter unplaceable groups)))"
  by (simp add: patch_grouped_children_def patch_collect_char patch_apply_fold fold_map comp_def)

lemma patch_place_char:
  "g_parent g = Some p \<Longrightarrow> placeable g \<Longrightarrow>
     patch_place (g, sibling_set (g_next g)) d1 =
       (case g_next g of
          Node x \<Rightarrow> dom_before x (g_nodes g) d1
        | Null \<Rightarrow> dom_append p (g_nodes g) d1
        | _ \<Rightarrow> (case g_prev g of
                  Node y \<Rightarrow> dom_after y (g_nodes g) d1
                | _ \<Rightarrow> dom_prepend p (g_nodes g) d1))"
  by (cases "g_next g"; cases "g_prev g") (auto simp: patch_place_def sibling_set_def placeable_def)

lemma revert_patches_groups:
  "md_revert custom_revert w md = Inr res \<Longrightarrow>
     rr_returned res = None
     \<and> (\<exists>groups d1 u1.
           revert_props (props md) custom_revert w = Inr (d1, u1)
           \<and> diff_grouped_children ORIGINAL True (tree md) = Inr groups
           \<and> patch_grouped_children groups d1 = Inr (rr_dom res, rr_console res))"
  by (auto simp: md_revert_def ebind_def split: sum.splits prod.splits)

text \<open>
  C9, as the code has it. \<^verbatim>\<open>patch_grouped_children\<close> first removes the nodes of every
  group from the tree, in order. Then every group that has a parent and a set sibling is
  placed, one after the other in the order of the groups, each in the tree the one before
  left, and the first insertion that throws ends the method; a group that has a parent and
  no set sibling is not placed, and one warning is printed for each. A group is placed before
  \<^verbatim>\<open>next\<close> if that is a node, appended to the parent if \<^verbatim>\<open>next\<close> is \<^verbatim>\<open>null\<close>, and
  otherwise after \<^verbatim>\<open>prev\<close> if that is a node, prepended to the parent if \<^verbatim>\<open>prev\<close> is
  \<^verbatim>\<open>null\<close>. \<^verbatim>\<open>revert\<close> patches the groups of the original positions in this way, and
  the warning is the only diagnostic: a \<^verbatim>\<open>revert\<close> that completes returns \<^verbatim>\<open>undefined\<close>.
\<close>

theorem patch_skips_unknown_groups:
  "patch_grouped_children groups d =
     ebind (fold (\<lambda>g r. ebind r (patch_place (g, sibling_set (g_next g)))) (filter placeable groups)
              (Inr (fold dom_remove (concat (map g_nodes groups)) d)))
       (\<lambda>d2. Inr (d2, map (\<lambda>g. warn_unknown) (filter unplaceable groups)))
   \<and> (\<forall>g p d1. g_parent g = Some p \<and> placeable g \<longrightarrow>
         patch_place (g, sibling_set (g_next g)) d1 =
           (case g_next g of
              Node x \<Rightarrow> dom_before x (g_nodes g) d1
            | Null \<Rightarrow> dom_append p (g_nodes g) d1
            | _ \<Rightarrow> (case g_prev g of
                      Node y \<Rightarrow> dom_after y (g_nodes g) d1
                    | _ \<Rightarrow> dom_prepend p (g_nodes g) d1)))
   \<and> (\<forall>custom_revert w md (res :: 'u revert_result).
         md_revert custom_revert w md = Inr res \<longrightarrow>
           rr_returned res = None
           \<and> (\<exists>gs d1 u1.
                 revert_props (props md) custom_revert w = Inr (d1, u1)
                 \<and> diff_grouped_children ORIGINAL True (tree md) = Inr gs
                 \<and> patch_grouped_children gs d1 = Inr (rr_dom res, rr_console res)))"
  using patch_grouped_children_char[of groups d] patch_place_char revert_patches_groups
  by blast

lemma ex_c9_wide_groups:
  "diff_grouped_children ORIGINAL True (tree ex_c9_wide_diff) =
     Inr [ex_known_group, ex_unknown_group, ex_second_group]"
  by code_simp

lemma ex_c9_wide_revert_completes:
  "(case md_revert None (ex_c9_wide_dom, ()) ex_c9_wide_diff of Inr res \<Rightarrow> True | Inl e \<Rightarrow> False)"
  by code_simp

lemma ex_c9_wide_removed:
  "fold dom_remove (concat (map g_nodes [ex_known_group, ex_unknown_group, ex_second_group]))
     ex_c9_wide_dom =
   ex_c9_wide_dom\<lparr>forest :=
     [DNode 10 [], DNode 0 [], DNode 1 [], DNode 20 [DNode 7 [], DNode 9 []], DNode 8 [],
      DNode 5 [], DNode 6 []]\<rparr>"
  by code_simp

lemma ex_c9_wide_first_placed:
  "dom_append 10 [5, 6]
     (ex_c9_wide_dom\<lparr>forest :=
        [DNode 10 [], DNode 0 [], DNode 1 [], DNode 20 [DNode 7 [], DNode 9 []], DNode 8 [],
         DNode 5 [], DNode 6 []]\<rparr>) =
   Inr (ex_c9_wide_dom\<lparr>forest :=
          [DNode 10 [DNode 5 [], DNode 6 []], DNode 0 [], DNode 1 [],
           DNode 20 [DNode 7 [], DNode 9 []], DNode 8 []]\<rparr>)"
  by code_simp

lemma ex_c9_wide_second_placed:
  "dom_before 9 [8]
     (ex_c9_wide_dom\<lparr>forest :=
        [DNode 10 [DNode 5 [], DNode 6 []], DNode 0 [], DNode 1 [],
         DNode 20 [DNode 7 [], DNode 9 []], DNode 8 []]\<rparr>) =
   Inr (ex_c9_wide_dom\<lparr>forest :=
          [DNode 10 [DNode 5 [], DNode 6 []], DNode 0 [], DNode 1 [],
           DNode 20 [DNode 7 [], DNode 8 [], DNode 9 []]]\<rparr>)"
  by code_simp

theorem patch_skips_unknown_groups_witness:
  "g_parent ex_known_group = Some 10 \<and> placeable ex_known_group
   \<and> unplaceable ex_unknown_group
   \<and> g_parent ex_second_group = Some 20 \<and> placeable ex_second_group
   \<and> patch_grouped_children [ex_known_group, ex_unknown_group, ex_second_group] ex_c9_wide_dom =
       Inr (ex_c9_wide_dom\<lparr>forest :=
              [DNode 10 [DNode 5 [], DNode 6 []], DNode 0 [], DNode 1 [],
               DNode 20 [DNode 7 [], DNode 8 [], DNode 9 []]]\<rparr>,
            [warn_unknown])
   \<and> (case md_revert None (ex_c9_wide_dom, ()) ex_c9_wide_diff of
         Inr res \<Rightarrow>
           rr_returned res = None \<and> rr_console res = [warn_unknown]
           \<and> forest (rr_dom res) =
               [DNode 10 [DNode 5 [], DNode 6 []], DNode 0 [], DNode 1 [],
               DNode 20 [DNode 7 [], DNode 8 [], DNode 9 []]]
       | Inl e \<Rightarrow> False)"
proof -
  let ?gs = "[ex_known_group, ex_unknown_group, ex_second_group]"
  have p1: "g_parent ex_known_group = Some 10 \<and> placeable ex_known_group"
    by (simp add: ex_known_group_def placeable_def sibling_set_def)
  have u: "unplaceable ex_unknown_group"
    by (simp add: ex_unknown_group_def unplaceable_def sibling_set_def)
  have p2: "g_parent ex_second_group = Some 20 \<and> placeable ex_second_group"
    by (simp add: ex_second_group_def placeable_def sibling_set_def)
  have nu: "\<not> unplaceable ex_known_group \<and> \<not> placeable ex_unknown_group
            \<and> \<not> unplaceable ex_second_group"
    by (simp add: ex_known_group_def ex_unknown_group_def ex_second_group_def placeable_def
          unplaceable_def sibling_set_def)
  note pol = patch_skips_unknown_groups[of ?gs ex_c9_wide_dom]
  have place1: "patch_place (ex_known_group, sibling_set (g_next ex_known_group)) d1 =
      dom_append 10 [5, 6] d1" for d1
    using pol[THEN conjunct2, THEN conjunct1, rule_format, of ex_known_group 10 d1] p1
    by (simp add: ex_known_group_def)
  have place2: "patch_place (ex_second_group, sibling_set (g_next ex_second_group)) d1 =
      dom_before 9 [8] d1" for d1
    using pol[THEN conjunct2, THEN conjunct1, rule_format, of ex_second_group 20 d1] p2
    by (simp add: ex_second_group_def)
  have g: "patch_grouped_children ?gs ex_c9_wide_dom =
       Inr (ex_c9_wide_dom\<lparr>forest :=
              [DNode 10 [DNode 5 [], DNode 6 []], DNode 0 [], DNode 1 [],
               DNode 20 [DNode 7 [], DNode 8 [], DNode 9 []]]\<rparr>,
            [warn_unknown])"
  proof -
    have f: "filter placeable ?gs = [ex_known_group, ex_second_group]"
      using p1 p2 nu by simp
    have w: "filter unplaceable ?gs = [ex_unknown_group]"
      using u nu by simp
    show ?thesis
      unfolding pol[THEN conjunct1] f w ex_c9_wide_removed
      by (simp only: fold.simps comp_apply id_apply ebind_Inr place1 place2
            ex_c9_wide_first_placed ex_c9_wide_second_placed list.map)
  qed
  obtain res :: "unit revert_result"
    where r: "md_revert None (ex_c9_wide_dom, ()) ex_c9_wide_diff = Inr res"
    using ex_c9_wide_revert_completes
    by (cases "md_revert None (ex_c9_wide_dom, ()) ex_c9_wide_diff") auto
  from pol[THEN conjunct2, THEN conjunct2, rule_format, OF r]
  obtain gs d1 u1 where
    ret: "rr_returned res = None" and
    rp: "revert_props (props ex_c9_wide_diff) None (ex_c9_wide_dom, ()) = Inr (d1, u1)" and
    dg: "diff_grouped_children ORIGINAL True (tree ex_c9_wide_diff) = Inr gs" and
    pg: "patch_grouped_children gs d1 = Inr (rr_dom res, rr_console res)"
    by blast
  from rp have d1: "d1 = ex_c9_wide_dom" by (simp add: ex_c9_wide_diff_def)
  from dg have gs: "gs = ?gs" by (simp add: ex_c9_wide_groups)
  from pg g have rd: "rr_dom res = ex_c9_wide_dom\<lparr>forest :=
               [DNode 10 [DNode 5 [], DNode 6 []], DNode 0 [], DNode 1 [],
                DNode 20 [DNode 7 [], DNode 8 [], DNode 9 []]]\<rparr>"
    and rc: "rr_console res = [warn_unknown]"
    unfolding d1 gs by simp_all
  have "rr_console res = [warn_unknown] \<and> forest (rr_dom res) =
               [DNode 10 [DNode 5 [], DNode 6 []], DNode 0 [], DNode 1 [],
                DNode 20 [DNode 7 [], DNode 8 [], DNode 9 []]]"
    unfolding rd rc by simp
  with p1 p2 u g ret r show ?thesis by simp
qed

text \<open>
  C9, as stated, fails: the revert of \<open>ex_c9_diff\<close> skips the group of node 1 (both of its
  original siblings are promises), prints the warning and completes, and the value it
  returns is \<^verbatim>\<open>undefined\<close>, not a diagnostic.
\<close>

theorem revert_returns_no_diagnostic:
  "(case ebind (mutations ex_c9_stream new_TreeMutations)
           (\<lambda>t. md_revert None (ex_c9_dom, ()) \<lparr>props = [], tree = t\<rparr>) of
      Inr res \<Rightarrow>
        rr_console res = [warn_unknown] \<and> rr_returned res = None
        \<and> forest (rr_dom res) = [DNode 10 [DNode 5 [], DNode 6 []], DNode 0 [], DNode 1 []]
    | Inl e \<Rightarrow> False)"
  by code_simp

end
